theory Spec2Isabelle
  imports Complex_Main
begin

section \<open>The number pipes of @angular/common (number\_pipe.ts)\<close>

text \<open>
  The file \<^verbatim>\<open>src/modules/@angular/common/src/pipes/number_pipe.ts\<close> holds one regular
  expression, the function \<^verbatim>\<open>formatNumber\<close> and the three pipes that call it
  (\<^verbatim>\<open>DecimalPipe\<close>, \<^verbatim>\<open>PercentPipe\<close>, \<^verbatim>\<open>CurrencyPipe\<close>). Everything below follows
  that file line by line. What the file imports from \<^verbatim>\<open>../facade/lang\<close> and
  \<^verbatim>\<open>../facade/intl\<close> is not part of it: the locale formatter
  \<^verbatim>\<open>NumberFormatter.format\<close> and the conversion of a string to a number (the unary
  \<^verbatim>\<open>+\<close>) are parameters of the model, the small helpers are modelled from the
  specification and marked as such.
\<close>

subsection \<open>Values\<close>

text \<open>
  A JavaScript number. \<^verbatim>\<open>formatNumber\<close> never computes with the number it formats, it
  only hands it on; a finite number is represented by the rational it denotes.
\<close>

datatype js_number = NaN | PosInfinity | NegInfinity | Finite rat

text \<open>
  The pipes take \<^verbatim>\<open>value: any\<close>. The tagged union lists the run-time types the code
  distinguishes; an object is represented by its reference. \<^verbatim>\<open>isString(value)\<close> of
  \<^verbatim>\<open>../facade/lang\<close> is the pattern \<open>JsString s\<close>.
\<close>

datatype js_value =
    JsUndefined
  | JsNull
  | JsNumber js_number
  | JsString string
  | JsBoolean bool
  | JsObject nat

text \<open>
  A typed parameter or variable that may hold \<^verbatim>\<open>undefined\<close> or \<^verbatim>\<open>null\<close>:
  \<^verbatim>\<open>digits: string\<close>, \<^verbatim>\<open>let minInt: number\<close>, a capture group of a match.
  Modelled from the spec: \<^verbatim>\<open>isPresent\<close> of \<^verbatim>\<open>../facade/lang\<close>, which is not under src/.
  The spec's test is that the string ``was supplied'': it is neither \<^verbatim>\<open>undefined\<close> nor
  \<^verbatim>\<open>null\<close>. In the model \<^verbatim>\<open>isPresent(x)\<close> is the pattern \<open>Defined x\<close>, so the empty
  string is present.
\<close>

datatype 'a nullable = Undefined | Null | Defined 'a

text \<open>\<^verbatim>\<open>NumberFormatStyle\<close> (an enum of \<^verbatim>\<open>../facade/intl\<close>).\<close>

datatype NumberFormatStyle = Decimal | Percent | Currency

text \<open>The pipe class handed to \<^verbatim>\<open>formatNumber\<close> as \<^verbatim>\<open>pipe: Type<any>\<close>.\<close>

datatype pipe = DecimalPipe | PercentPipe | CurrencyPipe

text \<open>
  What the code throws: \<^verbatim>\<open>new InvalidPipeArgumentError(pipe, value)\<close> (line 25) and
  \<^verbatim>\<open>new Error(message)\<close> (line 40).
\<close>

datatype error =
    InvalidPipeArgumentError pipe js_value
  | Error string

text \<open>The object literal of lines 52 to 58.\<close>

record FormatOptions =
  minimumIntegerDigits :: "nat nullable"
  minimumFractionDigits :: "nat nullable"
  maximumFractionDigits :: "nat nullable"
  currency :: "string nullable"
  currencyAsSymbol :: "bool nullable"

text \<open>
  The locale formatter \<^verbatim>\<open>NumberFormatter.format(value, locale, style, options)\<close> is an
  external collaborator. It may throw, and nothing in this file says that it is free of
  effects, so it is a parameter that takes the state \<open>'w\<close> of the world around the
  pipe and returns the new one.
\<close>

type_synonym 'w NumberFormatter =
  "js_value \<Rightarrow> string \<Rightarrow> NumberFormatStyle \<Rightarrow> FormatOptions \<Rightarrow> 'w \<Rightarrow> (error + string) \<times> 'w"

subsection \<open>Helpers of the facade and of the language\<close>

text \<open>
  Modelled from the spec: \<^verbatim>\<open>isBlank\<close> of \<^verbatim>\<open>../facade/lang\<close>, which is not under src/.
  The spec calls the value ``absent'': it is \<^verbatim>\<open>undefined\<close> or \<^verbatim>\<open>null\<close>.
\<close>

definition isBlank :: "js_value \<Rightarrow> bool" where
  "isBlank v = (case v of JsUndefined \<Rightarrow> True | JsNull \<Rightarrow> True | _ \<Rightarrow> False)"

text \<open>
  Modelled from the spec: \<^verbatim>\<open>isNumber\<close> of \<^verbatim>\<open>../facade/lang\<close>, which is not under src/.
  The spec's test is ``already numeric'', a test on the variant of the value.
\<close>

definition isNumber :: "js_value \<Rightarrow> bool" where
  "isNumber v = (case v of JsNumber _ \<Rightarrow> True | _ \<Rightarrow> False)"

text \<open>The character class \<^verbatim>\<open>\d\<close> of a JavaScript regular expression: \<^verbatim>\<open>[0-9]\<close>.\<close>

definition isDigit :: "char \<Rightarrow> bool" where
  "isDigit c = (c \<in> set ''0123456789'')"

text \<open>
  Modelled from the spec: \<^verbatim>\<open>NumberWrapper.isNumeric\<close> of \<^verbatim>\<open>../facade/lang\<close>, which is not
  under src/. The spec: the string is ``lexically a valid number (full-string numeric
  literal, optionally signed, optionally with a fractional part and/or exponent)''.
  \<open>dropSign\<close> removes one leading sign, \<open>isExponent\<close> accepts the empty rest or
  \<^verbatim>\<open>e\<close>/\<^verbatim>\<open>E\<close>, an optional sign and at least one digit.
\<close>

definition dropSign :: "string \<Rightarrow> string" where
  "dropSign s =
     (case s of
        [] \<Rightarrow> []
      | c # cs \<Rightarrow> if c = CHR ''+'' \<or> c = CHR ''-'' then cs else s)"

definition isExponent :: "string \<Rightarrow> bool" where
  "isExponent s =
     (case s of
        [] \<Rightarrow> True
      | c # cs \<Rightarrow>
          (c = CHR ''e'' \<or> c = CHR ''E'') \<and> dropSign cs \<noteq> [] \<and> list_all isDigit (dropSign cs))"

definition isNumeric :: "string \<Rightarrow> bool" where
  "isNumeric s =
     (let body = dropSign s;
          intPart = takeWhile isDigit body;
          afterInt = dropWhile isDigit body
      in case afterInt of
           [] \<Rightarrow> intPart \<noteq> []
         | c # cs \<Rightarrow>
             if c = CHR ''.''
             then (intPart \<noteq> [] \<or> takeWhile isDigit cs \<noteq> []) \<and> isExponent (dropWhile isDigit cs)
             else intPart \<noteq> [] \<and> isExponent afterInt)"

text \<open>
  Modelled from the spec: \<^verbatim>\<open>NumberWrapper.parseIntAutoRadix\<close> of \<^verbatim>\<open>../facade/lang\<close>,
  which is not under src/. The spec: ``integer fields are parsed with auto-detected
  radix (a leading 0x/0 prefix is honored if present, otherwise base 10)'', and a field
  that ``fails to parse as an integer'' fails with the error of an invalid digit spec.
  As the platform's integer parser does, the longest prefix of digits of the radix is
  read (\<open>readDigits\<close>), and the parse fails when that prefix is empty. The result is an
  exact natural number.
\<close>

definition digitValue :: "char \<Rightarrow> nat option" where
  "digitValue c =
     (if isDigit c then Some (of_char c - 48)
      else if c \<in> set ''abcdef'' then Some (of_char c - 87)
      else if c \<in> set ''ABCDEF'' then Some (of_char c - 55)
      else None)"

fun readDigits :: "nat \<Rightarrow> string \<Rightarrow> nat list" where
  "readDigits radix [] = []"
| "readDigits radix (c # cs) =
     (case digitValue c of
        None \<Rightarrow> []
      | Some v \<Rightarrow> if v < radix then v # readDigits radix cs else [])"

definition parseIntAutoRadix :: "string \<Rightarrow> error + nat" where
  "parseIntAutoRadix text =
     (let (radix, body) =
            (if take 2 text = ''0x'' \<or> take 2 text = ''0X'' then (16, drop 2 text)
             else if take 1 text = ''0'' then (8, text)
             else (10, text));
          ds = readDigits radix body
      in if ds = [] then Inl (Error (text @ '' is not a valid digit info for number pipes''))
         else Inr (foldl (\<lambda>acc d. acc * radix + d) 0 ds))"

text \<open>
  A default parameter initialiser of the language (\<^verbatim>\<open>digits: string = null\<close>): the
  default replaces an argument that is omitted, that is, \<^verbatim>\<open>undefined\<close>.
\<close>

definition defaultParam :: "'a nullable \<Rightarrow> 'a nullable \<Rightarrow> 'a nullable" where
  "defaultParam d arg = (case arg of Undefined \<Rightarrow> d | _ \<Rightarrow> arg)"

subsection \<open>The regular expression (line 16)\<close>

text \<open>
  \<^verbatim>\<open>digits.match(/^(\d+)?\.((\d+)(\-(\d+))?)?$/)\<close>: \<open>None\<close> is \<^verbatim>\<open>null\<close>, otherwise the
  array of the whole match and the capture groups 1 to 5, a group that took no part
  being \<^verbatim>\<open>undefined\<close>. The expression is anchored at both ends and has no flag, and the
  characters that follow a run of \<^verbatim>\<open>\d+\<close> are never digits, so each group takes the
  whole run of digits it starts at and no backtracking changes the result.
\<close>

definition NUMBER_FORMAT_REGEXP_match :: "string \<Rightarrow> string nullable list option" where
  "NUMBER_FORMAT_REGEXP_match s =
     (let g1 = takeWhile isDigit s;
          afterInt = dropWhile isDigit s;
          part1 = (if g1 = [] then Undefined else Defined g1)
      in case afterInt of
           [] \<Rightarrow> None
         | c # rest \<Rightarrow>
             if c = CHR ''.'' then
               (if rest = [] then
                  Some [Defined s, part1, Undefined, Undefined, Undefined, Undefined]
                else
                  let g3 = takeWhile isDigit rest;
                      afterMin = dropWhile isDigit rest
                  in if g3 = [] then None
                     else
                       (case afterMin of
                          [] \<Rightarrow> Some [Defined s, part1, Defined rest, Defined g3, Undefined, Undefined]
                        | c' # g5 \<Rightarrow>
                            if c' = CHR ''-'' \<and> g5 \<noteq> [] \<and> list_all isDigit g5
                            then Some [Defined s, part1, Defined rest, Defined g3,
                                       Defined afterMin, Defined g5]
                            else None))
             else None)"

subsection \<open>formatNumber (lines 18 to 59)\<close>

text \<open>
  Lines 42 to 50, three times the same statement:
  \<^verbatim>\<open>if (isPresent(parts[i])) { x = NumberWrapper.parseIntAutoRadix(parts[i]); }\<close>.
  \<open>assignPart part x\<close> is the new value of \<open>x\<close>, or the error that the parser throws.
\<close>

definition assignPart :: "string nullable \<Rightarrow> nat nullable \<Rightarrow> error + nat nullable" where
  "assignPart part x =
     (case part of
        Defined t \<Rightarrow> (case parseIntAutoRadix t of Inl e \<Rightarrow> Inl e | Inr n \<Rightarrow> Inr (Defined n))
      | _ \<Rightarrow> Inr x)"

text \<open>
  Lines 52 to 58, \<^verbatim>\<open>return NumberFormatter.format(value as number, locale, style, {...})\<close>:
  the formatter's string is returned as it is, its error is passed on, and the state
  is the one the formatter leaves. The cast \<^verbatim>\<open>as number\<close> does nothing at run time.
\<close>

definition returnFormat ::
  "'w NumberFormatter \<Rightarrow> js_value \<Rightarrow> string \<Rightarrow> NumberFormatStyle \<Rightarrow> FormatOptions \<Rightarrow> 'w
     \<Rightarrow> (error + string nullable) \<times> 'w" where
  "returnFormat format v locale style options w =
     (case format v locale style options w of
        (Inl e, w') \<Rightarrow> (Inl e, w')
      | (Inr text, w') \<Rightarrow> (Inr (Defined text), w'))"

text \<open>
  \<open>formatNumber format toNumber pipe locale value style digits currency currencyAsSymbol w\<close>:
  \<open>format\<close> is \<^verbatim>\<open>NumberFormatter.format\<close>, \<open>toNumber\<close> is the unary \<^verbatim>\<open>+\<close> on a string.
  The result is the string or \<^verbatim>\<open>null\<close> that is returned (\<open>Inr\<close>) or the error that is
  thrown (\<open>Inl\<close>), with the state of the world after the call.
\<close>

definition formatNumber ::
  "'w NumberFormatter \<Rightarrow> (string \<Rightarrow> js_number) \<Rightarrow> pipe \<Rightarrow> string \<Rightarrow> js_value
     \<Rightarrow> NumberFormatStyle \<Rightarrow> string nullable \<Rightarrow> string nullable \<Rightarrow> bool nullable \<Rightarrow> 'w
     \<Rightarrow> (error + string nullable) \<times> 'w" where
  "formatNumber format toNumber pipe locale value style digits currency0 currencyAsSymbol0 w =
     (let currency1 = defaultParam Null currency0;
          currencyAsSymbol1 = defaultParam (Defined False) currencyAsSymbol0
      in
      if isBlank value then (Inr Null, w)
      else
        let value1 =
              (case value of
                 JsString s \<Rightarrow> if isNumeric s then JsNumber (toNumber s) else value
               | _ \<Rightarrow> value)
        in
        if \<not> isNumber value1 then (Inl (InvalidPipeArgumentError pipe value1), w)
        else
          let (minInt, minFraction, maxFraction) =
                (if style \<noteq> Currency then (Defined 1, Defined 0, Defined 3)
                 else (Undefined, Undefined, Undefined));
              bounds =
                (case digits of
                   Defined d \<Rightarrow>
                     (case NUMBER_FORMAT_REGEXP_match d of
                        None \<Rightarrow> Inl (Error (d @ '' is not a valid digit info for number pipes''))
                      | Some parts \<Rightarrow>
                          (case assignPart (parts ! 1) minInt of
                             Inl e \<Rightarrow> Inl e
                           | Inr minInt' \<Rightarrow>
                               (case assignPart (parts ! 3) minFraction of
                                  Inl e \<Rightarrow> Inl e
                                | Inr minFraction' \<Rightarrow>
                                    (case assignPart (parts ! 5) maxFraction of
                                       Inl e \<Rightarrow> Inl e
                                     | Inr maxFraction' \<Rightarrow>
                                         Inr (minInt', minFraction', maxFraction')))))
                 | _ \<Rightarrow> Inr (minInt, minFraction, maxFraction))
          in
          (case bounds of
             Inl e \<Rightarrow> (Inl e, w)
           | Inr (minInt', minFraction', maxFraction') \<Rightarrow>
               returnFormat format value1 locale style
                 \<lparr>minimumIntegerDigits = minInt',
                  minimumFractionDigits = minFraction',
                  maximumFractionDigits = maxFraction',
                  currency = currency1,
                  currencyAsSymbol = currencyAsSymbol1\<rparr> w))"

subsection \<open>The three pipes (lines 90 to 162)\<close>

text \<open>
  \<open>locale\<close> is the pipe's \<^verbatim>\<open>this._locale\<close>. An argument that the caller omits is
  \<open>Undefined\<close>. The decimal and the percent pipe call \<^verbatim>\<open>formatNumber\<close> with five
  arguments, so its last two parameters are omitted there.
\<close>

definition DecimalPipe_transform ::
  "'w NumberFormatter \<Rightarrow> (string \<Rightarrow> js_number) \<Rightarrow> string \<Rightarrow> js_value \<Rightarrow> string nullable \<Rightarrow> 'w
     \<Rightarrow> (error + string nullable) \<times> 'w" where
  "DecimalPipe_transform format toNumber locale value digits w =
     formatNumber format toNumber DecimalPipe locale value Decimal (defaultParam Null digits)
       Undefined Undefined w"

definition PercentPipe_transform ::
  "'w NumberFormatter \<Rightarrow> (string \<Rightarrow> js_number) \<Rightarrow> string \<Rightarrow> js_value \<Rightarrow> string nullable \<Rightarrow> 'w
     \<Rightarrow> (error + string nullable) \<times> 'w" where
  "PercentPipe_transform format toNumber locale value digits w =
     formatNumber format toNumber PercentPipe locale value Percent (defaultParam Null digits)
       Undefined Undefined w"

definition CurrencyPipe_transform ::
  "'w NumberFormatter \<Rightarrow> (string \<Rightarrow> js_number) \<Rightarrow> string \<Rightarrow> js_value \<Rightarrow> string nullable
     \<Rightarrow> bool nullable \<Rightarrow> string nullable \<Rightarrow> 'w \<Rightarrow> (error + string nullable) \<times> 'w" where
  "CurrencyPipe_transform format toNumber locale value currencyCode symbolDisplay digits w =
     formatNumber format toNumber CurrencyPipe locale value Currency (defaultParam Null digits)
       (defaultParam (Defined ''USD'') currencyCode)
       (defaultParam (Defined False) symbolDisplay) w"

subsection \<open>The grammar of a digit info\<close>

text \<open>A field of the grammar that is present: a non-empty sequence of decimal digits.\<close>

definition digitRun :: "string \<Rightarrow> bool" where
  "digitRun t \<longleftrightarrow> t \<noteq> [] \<and> list_all isDigit t"

text \<open>
  The grammar in the words of the specification,
  \<^verbatim>\<open>[<minInt>].[<minFrac>][-<maxFrac>]\<close>: the dot is mandatory, each of the three fields
  is optional, and the hyphen is required exactly when the field it introduces is there.
\<close>

definition specDigitGrammar :: "string \<Rightarrow> bool" where
  "specDigitGrammar s \<longleftrightarrow>
     (\<exists>minInt minFrac maxPart.
        s = minInt @ ''.'' @ minFrac @ maxPart
        \<and> (minInt = [] \<or> digitRun minInt)
        \<and> (minFrac = [] \<or> digitRun minFrac)
        \<and> (maxPart = [] \<or> (\<exists>maxFrac. maxPart = ''-'' @ maxFrac \<and> digitRun maxFrac)))"

text \<open>
  The grammar \<^verbatim>\<open>[<minInt>].[<minFrac>[-<maxFrac>]]\<close>: as before, but the hyphen and the
  third field may only follow a second field that is there.
\<close>

definition digitInfoGrammar :: "string \<Rightarrow> bool" where
  "digitInfoGrammar s \<longleftrightarrow>
     (\<exists>minInt fraction.
        s = minInt @ ''.'' @ fraction
        \<and> (minInt = [] \<or> digitRun minInt)
        \<and> (fraction = []
            \<or> (\<exists>minFrac maxPart.
                  fraction = minFrac @ maxPart \<and> digitRun minFrac
                  \<and> (maxPart = [] \<or> (\<exists>maxFrac. maxPart = ''-'' @ maxFrac \<and> digitRun maxFrac)))))"

subsection \<open>Collaborators\<close>

text \<open>
  A formatter is pure when it leaves the state as it is and its result does not depend
  on the state.
\<close>

definition pureFormatter :: "'w NumberFormatter \<Rightarrow> bool" where
  "pureFormatter format \<longleftrightarrow>
     (\<forall>v locale style options w w'.
        snd (format v locale style options w) = w
        \<and> fst (format v locale style options w) = fst (format v locale style options w'))"

text \<open>
  Three formatters and a conversion for closed instances: \<open>recordingFormat\<close> appends
  the arguments of each call to the state, \<open>countingFormat\<close> numbers its calls and
  puts the number into its result, \<open>localeFormat\<close> is pure and answers with the locale.
\<close>

type_synonym call = "js_value \<times> string \<times> NumberFormatStyle \<times> FormatOptions"

definition recordingFormat :: "call list NumberFormatter" where
  "recordingFormat v locale style options calls =
     (Inr ''formatted'', calls @ [(v, locale, style, options)])"

definition countingFormat :: "nat NumberFormatter" where
  "countingFormat v locale style options calls =
     (Inr (replicate calls CHR ''|''), Suc calls)"

definition localeFormat :: "'w NumberFormatter" where
  "localeFormat v locale style options w = (Inr locale, w)"

definition sampleToNumber :: "string \<Rightarrow> js_number" where
  "sampleToNumber s =
     (if s = ''42.5'' then Finite (85 / 2) else if s = ''-3'' then Finite (- 3) else NaN)"

section \<open>Properties\<close>

subsection \<open>Digits and the integer parser\<close>

lemma isDigit_cases:
  "isDigit c \<longleftrightarrow> c = CHR ''0'' \<or> c = CHR ''1'' \<or> c = CHR ''2'' \<or> c = CHR ''3'' \<or> c = CHR ''4''
     \<or> c = CHR ''5'' \<or> c = CHR ''6'' \<or> c = CHR ''7'' \<or> c = CHR ''8'' \<or> c = CHR ''9''"
  by (simp add: isDigit_def)

lemma digitValue_digit: "isDigit c \<Longrightarrow> \<exists>v. digitValue c = Some v \<and> v < 10"
  by (auto simp: isDigit_cases digitValue_def)

lemma digitValue_zero: "digitValue CHR ''0'' = Some 0"
  by (simp add: digitValue_def isDigit_def)

lemma parseIntAutoRadix_digits:
  assumes "t \<noteq> []" "list_all isDigit t"
  shows "\<exists>n. parseIntAutoRadix t = Inr n"
proof -
  from assms obtain c cs where t: "t = c # cs" and c: "isDigit c" and cs: "list_all isDigit cs"
    by (cases t) auto
  from c obtain v where v: "digitValue c = Some v" "v < 10"
    using digitValue_digit by blast
  have nox: "take 2 t \<noteq> ''0x'' \<and> take 2 t \<noteq> ''0X''"
    using cs unfolding t by (cases cs) (auto simp: isDigit_cases)
  show ?thesis
  proof (cases "c = CHR ''0''")
    case True
    then show ?thesis
      using nox unfolding t by (simp add: parseIntAutoRadix_def Let_def digitValue_zero)
  next
    case False
    then show ?thesis
      using nox v unfolding t by (simp add: parseIntAutoRadix_def Let_def)
  qed
qed

subsection \<open>What a match of the regular expression holds\<close>

lemma match_parts:
  assumes "NUMBER_FORMAT_REGEXP_match d = Some parts"
  shows "length parts = 6"
    and "parts ! 1 = Undefined \<or> (\<exists>t. parts ! 1 = Defined t \<and> t \<noteq> [] \<and> list_all isDigit t)"
    and "parts ! 3 = Undefined \<or> (\<exists>t. parts ! 3 = Defined t \<and> t \<noteq> [] \<and> list_all isDigit t)"
    and "parts ! 5 = Undefined \<or> (\<exists>t. parts ! 5 = Defined t \<and> t \<noteq> [] \<and> list_all isDigit t)"
  using assms
  by (auto simp: NUMBER_FORMAT_REGEXP_match_def Let_def list_all_iff
      split: list.splits if_splits dest: set_takeWhileD)

lemma assignPart_group:
  assumes "part = Undefined \<or> (\<exists>t. part = Defined t \<and> t \<noteq> [] \<and> list_all isDigit t)"
  shows "\<exists>y. assignPart part x = Inr y \<and> (part = Undefined \<longrightarrow> y = x)"
  using assms parseIntAutoRadix_digits by (fastforce simp: assignPart_def)

subsection \<open>The paths through formatNumber\<close>

lemma formatNumber_no_digits:
  assumes "digits = Null \<or> digits = Undefined"
  shows "formatNumber format toNumber pipe loc (JsNumber n) style digits c a w =
     returnFormat format (JsNumber n) loc style
       \<lparr>minimumIntegerDigits = (if style = Currency then Undefined else Defined 1),
        minimumFractionDigits = (if style = Currency then Undefined else Defined 0),
        maximumFractionDigits = (if style = Currency then Undefined else Defined 3),
        currency = defaultParam Null c,
        currencyAsSymbol = defaultParam (Defined False) a\<rparr> w"
  using assms by (auto simp: formatNumber_def isBlank_def isNumber_def)

lemma formatNumber_no_match:
  assumes "NUMBER_FORMAT_REGEXP_match d = None"
  shows "formatNumber format toNumber pipe loc (JsNumber n) style (Defined d) c a w =
     (Inl (Error (d @ '' is not a valid digit info for number pipes'')), w)"
  using assms by (simp add: formatNumber_def isBlank_def isNumber_def)

lemma formatNumber_match:
  assumes "NUMBER_FORMAT_REGEXP_match d = Some parts"
    and "assignPart (parts ! 1) (if style = Currency then Undefined else Defined 1) = Inr x"
    and "assignPart (parts ! 3) (if style = Currency then Undefined else Defined 0) = Inr y"
    and "assignPart (parts ! 5) (if style = Currency then Undefined else Defined 3) = Inr z"
  shows "formatNumber format toNumber pipe loc (JsNumber n) style (Defined d) c a w =
     returnFormat format (JsNumber n) loc style
       \<lparr>minimumIntegerDigits = x, minimumFractionDigits = y, maximumFractionDigits = z,
        currency = defaultParam Null c,
        currencyAsSymbol = defaultParam (Defined False) a\<rparr> w"
  using assms by (auto simp: formatNumber_def isBlank_def isNumber_def)

lemma formatNumber_blank:
  "isBlank v \<Longrightarrow> formatNumber format toNumber pipe loc v style digits c a w = (Inr Null, w)"
  by (simp add: formatNumber_def)

lemma formatNumber_not_numeric:
  assumes "\<not> isBlank v" "\<not> isNumber v" "\<forall>s. v = JsString s \<longrightarrow> \<not> isNumeric s"
  shows "formatNumber format toNumber pipe loc v style digits c a w =
     (Inl (InvalidPipeArgumentError pipe v), w)"
  using assms by (cases v) (simp_all add: formatNumber_def isNumber_def)

lemma formatNumber_numeric_string:
  assumes "isNumeric s"
  shows "formatNumber format toNumber pipe loc (JsString s) style digits c a w =
     formatNumber format toNumber pipe loc (JsNumber (toNumber s)) style digits c a w"
  using assms by (simp add: formatNumber_def isBlank_def)

subsection \<open>Evaluations\<close>

lemma match_examples:
  "NUMBER_FORMAT_REGEXP_match ''3.2-4'' =
     Some [Defined ''3.2-4'', Defined ''3'', Defined ''2-4'', Defined ''2'', Defined ''-4'', Defined ''4'']"
  "NUMBER_FORMAT_REGEXP_match ''0.0-0'' =
     Some [Defined ''0.0-0'', Defined ''0'', Defined ''0-0'', Defined ''0'', Defined ''-0'', Defined ''0'']"
  "NUMBER_FORMAT_REGEXP_match ''.2'' =
     Some [Defined ''.2'', Undefined, Defined ''2'', Defined ''2'', Undefined, Undefined]"
  "NUMBER_FORMAT_REGEXP_match ''.'' =
     Some [Defined ''.'', Undefined, Undefined, Undefined, Undefined, Undefined]"
  "NUMBER_FORMAT_REGEXP_match '''' = None"
  "NUMBER_FORMAT_REGEXP_match ''1.2.3'' = None"
  "NUMBER_FORMAT_REGEXP_match ''abc'' = None"
  "NUMBER_FORMAT_REGEXP_match ''1-2'' = None"
  "NUMBER_FORMAT_REGEXP_match ''1.-3'' = None"
  by (simp_all add: NUMBER_FORMAT_REGEXP_match_def Let_def isDigit_def)

lemma parse_examples:
  "parseIntAutoRadix ''0'' = Inr 0"
  "parseIntAutoRadix ''2'' = Inr 2"
  "parseIntAutoRadix ''3'' = Inr 3"
  "parseIntAutoRadix ''4'' = Inr 4"
  by (simp_all add: parseIntAutoRadix_def digitValue_def isDigit_def)


subsection \<open>The regular expression and the grammar\<close>

lemma run_then_stop:
  "list_all P xs \<Longrightarrow> \<not> P y \<Longrightarrow>
     takeWhile P (xs @ y # ys) = xs \<and> dropWhile P (xs @ y # ys) = y # ys"
  by (simp add: list_all_iff takeWhile_tail dropWhile_append3)

lemma run_to_end: "list_all P xs \<Longrightarrow> takeWhile P xs = xs \<and> dropWhile P xs = []"
  by (simp add: list_all_iff)

lemma not_digit_dot: "\<not> isDigit CHR ''.''"
  by (simp add: isDigit_def)

lemma not_digit_hyphen: "\<not> isDigit CHR ''-''"
  by (simp add: isDigit_def)

lemma grammar_matches:
  assumes "digitInfoGrammar s"
  shows "NUMBER_FORMAT_REGEXP_match s \<noteq> None"
proof -
  from assms obtain minInt fraction where s0: "s = minInt @ ''.'' @ fraction"
    and mi0: "minInt = [] \<or> digitRun minInt"
    and fr0: "fraction = [] \<or> (\<exists>minFrac maxPart. fraction = minFrac @ maxPart \<and> digitRun minFrac
               \<and> (maxPart = [] \<or> (\<exists>maxFrac. maxPart = ''-'' @ maxFrac \<and> digitRun maxFrac)))"
    unfolding digitInfoGrammar_def by blast
  have s: "s = minInt @ CHR ''.'' # fraction"
    using s0 by simp
  have mi: "list_all isDigit minInt"
    using mi0 by (auto simp: digitRun_def)
  have fr: "fraction = [] \<or> (\<exists>minFrac maxPart. fraction = minFrac @ maxPart \<and> digitRun minFrac
               \<and> (maxPart = [] \<or> (\<exists>maxFrac. maxPart = CHR ''-'' # maxFrac \<and> digitRun maxFrac)))"
    using fr0 by simp
  have head: "takeWhile isDigit s = minInt" "dropWhile isDigit s = CHR ''.'' # fraction"
    using run_then_stop [OF mi not_digit_dot] unfolding s by simp_all
  from fr show ?thesis
  proof
    assume "fraction = []"
    then show ?thesis
      by (simp add: NUMBER_FORMAT_REGEXP_match_def head Let_def)
  next
    assume "\<exists>minFrac maxPart. fraction = minFrac @ maxPart \<and> digitRun minFrac
               \<and> (maxPart = [] \<or> (\<exists>maxFrac. maxPart = CHR ''-'' # maxFrac \<and> digitRun maxFrac))"
    then obtain minFrac maxPart where f: "fraction = minFrac @ maxPart"
      and mf0: "digitRun minFrac"
      and mp: "maxPart = [] \<or> (\<exists>maxFrac. maxPart = CHR ''-'' # maxFrac \<and> digitRun maxFrac)"
      by blast
    have mf: "minFrac \<noteq> []" "list_all isDigit minFrac"
      using mf0 by (simp_all add: digitRun_def)
    from mp show ?thesis
    proof
      assume e: "maxPart = []"
      have run: "takeWhile isDigit fraction = minFrac" "dropWhile isDigit fraction = []"
        using run_to_end [OF mf(2)] unfolding f e by simp_all
      have "fraction \<noteq> []"
        using mf(1) f e by simp
      then show ?thesis
        using mf(1) by (simp add: NUMBER_FORMAT_REGEXP_match_def head run Let_def)
    next
      assume "\<exists>maxFrac. maxPart = CHR ''-'' # maxFrac \<and> digitRun maxFrac"
      then obtain maxFrac where m: "maxPart = CHR ''-'' # maxFrac"
        and mx0: "digitRun maxFrac"
        by blast
      have mx: "maxFrac \<noteq> []" "list_all isDigit maxFrac"
        using mx0 by (simp_all add: digitRun_def)
      have run: "takeWhile isDigit fraction = minFrac"
        "dropWhile isDigit fraction = CHR ''-'' # maxFrac"
        using run_then_stop [OF mf(2) not_digit_hyphen] unfolding f m by simp_all
      have "fraction \<noteq> []"
        using mf(1) f by simp
      then show ?thesis
        using mf(1) mx by (simp add: NUMBER_FORMAT_REGEXP_match_def head run Let_def)
    qed
  qed
qed

lemma match_in_grammar:
  assumes "NUMBER_FORMAT_REGEXP_match s \<noteq> None"
  shows "digitInfoGrammar s"
proof -
  have s: "s = takeWhile isDigit s @ dropWhile isDigit s"
    by simp
  have mi: "list_all isDigit (takeWhile isDigit s)"
    by (auto simp: list_all_iff dest: set_takeWhileD)
  from assms obtain rest where d: "dropWhile isDigit s = CHR ''.'' # rest"
    by (auto simp: NUMBER_FORMAT_REGEXP_match_def Let_def split: list.splits if_splits)
  have rest: "rest = takeWhile isDigit rest @ dropWhile isDigit rest"
    by simp
  have mf: "list_all isDigit (takeWhile isDigit rest)"
    by (auto simp: list_all_iff dest: set_takeWhileD)
  from assms d have
    "rest = [] \<or> (takeWhile isDigit rest \<noteq> [] \<and> (dropWhile isDigit rest = []
        \<or> (\<exists>g5. dropWhile isDigit rest = CHR ''-'' # g5 \<and> g5 \<noteq> [] \<and> list_all isDigit g5)))"
    by (auto simp: NUMBER_FORMAT_REGEXP_match_def Let_def split: list.splits if_splits)
  then have "rest = [] \<or> (\<exists>minFrac maxPart. rest = minFrac @ maxPart \<and> digitRun minFrac
               \<and> (maxPart = [] \<or> (\<exists>maxFrac. maxPart = ''-'' @ maxFrac \<and> digitRun maxFrac)))"
    using rest mf unfolding digitRun_def by (metis append_Cons append_Nil)
  moreover have "s = takeWhile isDigit s @ ''.'' @ rest"
    using s d by simp
  moreover have "takeWhile isDigit s = [] \<or> digitRun (takeWhile isDigit s)"
    using mi by (simp add: digitRun_def)
  ultimately show ?thesis
    unfolding digitInfoGrammar_def by blast
qed

lemma formatNumber_digits_outcome:
  "if NUMBER_FORMAT_REGEXP_match d = None
   then \<forall>(format :: 'w NumberFormatter) w.
          formatNumber format toNumber pipe loc (JsNumber n) style (Defined d) c a w =
          (Inl (Error (d @ '' is not a valid digit info for number pipes'')), w)
   else \<exists>x y z. \<forall>(format :: 'w NumberFormatter) w.
          formatNumber format toNumber pipe loc (JsNumber n) style (Defined d) c a w =
          returnFormat format (JsNumber n) loc style
            \<lparr>minimumIntegerDigits = x, minimumFractionDigits = y, maximumFractionDigits = z,
             currency = defaultParam Null c,
             currencyAsSymbol = defaultParam (Defined False) a\<rparr> w"
proof (cases "NUMBER_FORMAT_REGEXP_match d")
  case None
  then show ?thesis
    by (simp add: formatNumber_no_match)
next
  case (Some parts)
  obtain x where x: "assignPart (parts ! 1) (if style = Currency then Undefined else Defined 1) = Inr x"
    using assignPart_group [OF match_parts(2) [OF Some]] by blast
  obtain y where y: "assignPart (parts ! 3) (if style = Currency then Undefined else Defined 0) = Inr y"
    using assignPart_group [OF match_parts(3) [OF Some]] by blast
  obtain z where z: "assignPart (parts ! 5) (if style = Currency then Undefined else Defined 3) = Inr z"
    using assignPart_group [OF match_parts(4) [OF Some]] by blast
  have "\<forall>(format :: 'w NumberFormatter) w.
          formatNumber format toNumber pipe loc (JsNumber n) style (Defined d) c a w =
          returnFormat format (JsNumber n) loc style
            \<lparr>minimumIntegerDigits = x, minimumFractionDigits = y, maximumFractionDigits = z,
             currency = defaultParam Null c,
             currencyAsSymbol = defaultParam (Defined False) a\<rparr> w"
    by (simp add: formatNumber_match [OF Some x y z])
  then have "\<exists>x y z. \<forall>(format :: 'w NumberFormatter) w.
          formatNumber format toNumber pipe loc (JsNumber n) style (Defined d) c a w =
          returnFormat format (JsNumber n) loc style
            \<lparr>minimumIntegerDigits = x, minimumFractionDigits = y, maximumFractionDigits = z,
             currency = defaultParam Null c,
             currencyAsSymbol = defaultParam (Defined False) a\<rparr> w"
    by (intro exI)
  then show ?thesis
    by (simp add: Some)
qed

subsection \<open>Absent values\<close>

text \<open>
  C3. For every style and every absent value (\<^verbatim>\<open>undefined\<close> or \<^verbatim>\<open>null\<close>),
  \<^verbatim>\<open>formatNumber\<close> and each of the three pipes return \<^verbatim>\<open>null\<close> and throw nothing.
  The formatter is not called: the equation holds for every formatter, whatever it
  returns and whatever it does to the state, and the state is the one before the call.
\<close>

theorem absent_value_returns_null:
  assumes "isBlank v"
  shows "formatNumber format toNumber pipe loc v style digits c a w = (Inr Null, w)
    \<and> DecimalPipe_transform format toNumber loc v digits w = (Inr Null, w)
    \<and> PercentPipe_transform format toNumber loc v digits w = (Inr Null, w)
    \<and> CurrencyPipe_transform format toNumber loc v code symbol digits w = (Inr Null, w)"
  using assms
  by (simp add: DecimalPipe_transform_def PercentPipe_transform_def CurrencyPipe_transform_def
      formatNumber_blank)

theorem absent_value_returns_null_witness:
  "isBlank JsUndefined
   \<and> formatNumber recordingFormat sampleToNumber PercentPipe ''en-US'' JsUndefined Percent
       (Defined ''1.2-2'') Undefined Undefined [] = (Inr Null, [])
   \<and> DecimalPipe_transform recordingFormat sampleToNumber ''en-US'' JsUndefined (Defined ''1.2-2'') []
       = (Inr Null, [])
   \<and> PercentPipe_transform recordingFormat sampleToNumber ''en-US'' JsUndefined (Defined ''1.2-2'') []
       = (Inr Null, [])
   \<and> CurrencyPipe_transform recordingFormat sampleToNumber ''en-US'' JsUndefined (Defined ''EUR'')
       (Defined True) (Defined ''1.2-2'') [] = (Inr Null, [])"
proof -
  have blank: "isBlank JsUndefined"
    by (simp add: isBlank_def)
  show ?thesis
    using blank absent_value_returns_null [OF blank] by simp
qed

subsection \<open>Values that are not numbers\<close>

text \<open>
  C4. For every value that is present, is not a number and is not a string that is
  lexically a number, each pipe throws \<^verbatim>\<open>InvalidPipeArgumentError\<close> with its own class
  (decimal, percent or currency) and the value as it was passed.
\<close>

theorem invalid_input_names_pipe:
  assumes "\<not> isBlank v" and "\<not> isNumber v" and "\<forall>s. v = JsString s \<longrightarrow> \<not> isNumeric s"
  shows "DecimalPipe_transform format toNumber loc v digits w =
           (Inl (InvalidPipeArgumentError DecimalPipe v), w)
    \<and> PercentPipe_transform format toNumber loc v digits w =
           (Inl (InvalidPipeArgumentError PercentPipe v), w)
    \<and> CurrencyPipe_transform format toNumber loc v code symbol digits w =
           (Inl (InvalidPipeArgumentError CurrencyPipe v), w)"
  using assms
  by (simp add: DecimalPipe_transform_def PercentPipe_transform_def CurrencyPipe_transform_def
      formatNumber_not_numeric)

theorem invalid_input_names_pipe_witness:
  "\<not> isBlank (JsString ''abc'') \<and> \<not> isNumber (JsString ''abc'') \<and> \<not> isNumeric ''abc''
   \<and> DecimalPipe_transform recordingFormat sampleToNumber ''en-US'' (JsString ''abc'') Undefined []
       = (Inl (InvalidPipeArgumentError DecimalPipe (JsString ''abc'')), [])
   \<and> PercentPipe_transform recordingFormat sampleToNumber ''en-US'' (JsString ''abc'') Undefined []
       = (Inl (InvalidPipeArgumentError PercentPipe (JsString ''abc'')), [])
   \<and> CurrencyPipe_transform recordingFormat sampleToNumber ''en-US'' (JsString ''abc'') Undefined
       Undefined Undefined []
       = (Inl (InvalidPipeArgumentError CurrencyPipe (JsString ''abc'')), [])"
proof -
  have h1: "\<not> isBlank (JsString ''abc'')"
    by (simp add: isBlank_def)
  have h2: "\<not> isNumber (JsString ''abc'')"
    by (simp add: isNumber_def)
  have h3: "\<forall>s. JsString ''abc'' = JsString s \<longrightarrow> \<not> isNumeric s"
    by (simp add: isNumeric_def dropSign_def isDigit_def)
  show ?thesis
    using h1 h2 h3 invalid_input_names_pipe [OF h1 h2 h3] by simp
qed

subsection \<open>Strings that are numbers\<close>

text \<open>
  C6. For every style, every locale and every string that is lexically a number,
  formatting the string gives exactly what formatting the number that the string
  converts to gives, in \<^verbatim>\<open>formatNumber\<close> and in each pipe.
\<close>

theorem numeric_string_as_number:
  assumes "isNumeric s"
  shows "formatNumber format toNumber pipe loc (JsString s) style digits c a w =
           formatNumber format toNumber pipe loc (JsNumber (toNumber s)) style digits c a w
    \<and> DecimalPipe_transform format toNumber loc (JsString s) digits w =
           DecimalPipe_transform format toNumber loc (JsNumber (toNumber s)) digits w
    \<and> PercentPipe_transform format toNumber loc (JsString s) digits w =
           PercentPipe_transform format toNumber loc (JsNumber (toNumber s)) digits w
    \<and> CurrencyPipe_transform format toNumber loc (JsString s) code symbol digits w =
           CurrencyPipe_transform format toNumber loc (JsNumber (toNumber s)) code symbol digits w"
  using assms
  by (simp add: DecimalPipe_transform_def PercentPipe_transform_def CurrencyPipe_transform_def
      formatNumber_numeric_string)

theorem numeric_string_as_number_witness:
  "isNumeric ''42.5''
   \<and> formatNumber recordingFormat sampleToNumber DecimalPipe ''en-US'' (JsString ''42.5'') Decimal
       (Defined ''1.2-2'') Undefined Undefined [] =
     formatNumber recordingFormat sampleToNumber DecimalPipe ''en-US'' (JsNumber (Finite (85 / 2)))
       Decimal (Defined ''1.2-2'') Undefined Undefined []
   \<and> DecimalPipe_transform recordingFormat sampleToNumber ''en-US'' (JsString ''42.5'')
       (Defined ''1.2-2'') [] =
     DecimalPipe_transform recordingFormat sampleToNumber ''en-US'' (JsNumber (Finite (85 / 2)))
       (Defined ''1.2-2'') []
   \<and> PercentPipe_transform recordingFormat sampleToNumber ''en-US'' (JsString ''42.5'')
       (Defined ''1.2-2'') [] =
     PercentPipe_transform recordingFormat sampleToNumber ''en-US'' (JsNumber (Finite (85 / 2)))
       (Defined ''1.2-2'') []
   \<and> CurrencyPipe_transform recordingFormat sampleToNumber ''en-US'' (JsString ''42.5'') Undefined
       Undefined (Defined ''1.2-2'') [] =
     CurrencyPipe_transform recordingFormat sampleToNumber ''en-US'' (JsNumber (Finite (85 / 2)))
       Undefined Undefined (Defined ''1.2-2'') []"
proof -
  have h: "isNumeric ''42.5''"
    by (simp add: isNumeric_def dropSign_def isExponent_def isDigit_def)
  have n: "sampleToNumber ''42.5'' = Finite (85 / 2)"
    by (simp add: sampleToNumber_def)
  show ?thesis
    using h numeric_string_as_number [OF h, where toNumber = sampleToNumber
        and format = recordingFormat and pipe = DecimalPipe and loc = "''en-US''"
        and style = Decimal and digits = "Defined ''1.2-2''" and c = Undefined and a = Undefined
        and code = Undefined and symbol = Undefined and w = "[]"]
    by (simp add: n)
qed

subsection \<open>Defaults\<close>

lemma defaultParam_simps:
  "defaultParam d Undefined = d"
  "defaultParam d Null = Null"
  "defaultParam d (Defined x) = Defined x"
  by (simp_all add: defaultParam_def)

lemma defaultParam_twice:
  "defaultParam Null (defaultParam (Defined x) arg) = defaultParam (Defined x) arg"
  by (cases arg) (simp_all add: defaultParam_def)

text \<open>
  C5. With no digit info (the argument omitted or \<^verbatim>\<open>null\<close>) and a number to format,
  the decimal and the percent pipe hand the formatter \<^verbatim>\<open>minimumIntegerDigits\<close> 1,
  \<^verbatim>\<open>minimumFractionDigits\<close> 0 and \<^verbatim>\<open>maximumFractionDigits\<close> 3, and the currency pipe
  hands it the three bounds unset (\<^verbatim>\<open>undefined\<close>).
\<close>

theorem default_bounds_by_style:
  assumes "digits = Undefined \<or> digits = Null"
  shows "DecimalPipe_transform format toNumber loc (JsNumber n) digits w =
       returnFormat format (JsNumber n) loc Decimal
         \<lparr>minimumIntegerDigits = Defined 1, minimumFractionDigits = Defined 0,
          maximumFractionDigits = Defined 3, currency = Null, currencyAsSymbol = Defined False\<rparr> w
    \<and> PercentPipe_transform format toNumber loc (JsNumber n) digits w =
       returnFormat format (JsNumber n) loc Percent
         \<lparr>minimumIntegerDigits = Defined 1, minimumFractionDigits = Defined 0,
          maximumFractionDigits = Defined 3, currency = Null, currencyAsSymbol = Defined False\<rparr> w
    \<and> CurrencyPipe_transform format toNumber loc (JsNumber n) code symbol digits w =
       returnFormat format (JsNumber n) loc Currency
         \<lparr>minimumIntegerDigits = Undefined, minimumFractionDigits = Undefined,
          maximumFractionDigits = Undefined,
          currency = defaultParam (Defined ''USD'') code,
          currencyAsSymbol = defaultParam (Defined False) symbol\<rparr> w"
proof -
  have d: "defaultParam Null digits = Undefined \<or> defaultParam Null digits = Null"
    using assms by (auto simp: defaultParam_simps)
  have "DecimalPipe_transform format toNumber loc (JsNumber n) digits w =
       returnFormat format (JsNumber n) loc Decimal
         \<lparr>minimumIntegerDigits = Defined 1, minimumFractionDigits = Defined 0,
          maximumFractionDigits = Defined 3, currency = Null, currencyAsSymbol = Defined False\<rparr> w"
    unfolding DecimalPipe_transform_def
    by (subst formatNumber_no_digits) (use d in \<open>auto simp: defaultParam_simps\<close>)
  moreover have "PercentPipe_transform format toNumber loc (JsNumber n) digits w =
       returnFormat format (JsNumber n) loc Percent
         \<lparr>minimumIntegerDigits = Defined 1, minimumFractionDigits = Defined 0,
          maximumFractionDigits = Defined 3, currency = Null, currencyAsSymbol = Defined False\<rparr> w"
    unfolding PercentPipe_transform_def
    by (subst formatNumber_no_digits) (use d in \<open>auto simp: defaultParam_simps\<close>)
  moreover have "CurrencyPipe_transform format toNumber loc (JsNumber n) code symbol digits w =
       returnFormat format (JsNumber n) loc Currency
         \<lparr>minimumIntegerDigits = Undefined, minimumFractionDigits = Undefined,
          maximumFractionDigits = Undefined,
          currency = defaultParam (Defined ''USD'') code,
          currencyAsSymbol = defaultParam (Defined False) symbol\<rparr> w"
    unfolding CurrencyPipe_transform_def
    by (subst formatNumber_no_digits)
      (use d in \<open>auto simp: defaultParam_simps defaultParam_twice defaultParam_def split: nullable.splits\<close>)
  ultimately show ?thesis
    by simp
qed

theorem default_bounds_by_style_witness:
  "((Undefined :: string nullable) = Undefined \<or> (Undefined :: string nullable) = Null)
   \<and> DecimalPipe_transform recordingFormat sampleToNumber ''en-US'' (JsNumber (Finite 1)) Undefined [] =
       (Inr (Defined ''formatted''),
        [(JsNumber (Finite 1), ''en-US'', Decimal,
          \<lparr>minimumIntegerDigits = Defined 1, minimumFractionDigits = Defined 0,
           maximumFractionDigits = Defined 3, currency = Null, currencyAsSymbol = Defined False\<rparr>)])
   \<and> PercentPipe_transform recordingFormat sampleToNumber ''en-US'' (JsNumber (Finite 1)) Undefined [] =
       (Inr (Defined ''formatted''),
        [(JsNumber (Finite 1), ''en-US'', Percent,
          \<lparr>minimumIntegerDigits = Defined 1, minimumFractionDigits = Defined 0,
           maximumFractionDigits = Defined 3, currency = Null, currencyAsSymbol = Defined False\<rparr>)])
   \<and> CurrencyPipe_transform recordingFormat sampleToNumber ''en-US'' (JsNumber (Finite 1))
       Undefined Undefined Undefined [] =
       (Inr (Defined ''formatted''),
        [(JsNumber (Finite 1), ''en-US'', Currency,
          \<lparr>minimumIntegerDigits = Undefined, minimumFractionDigits = Undefined,
           maximumFractionDigits = Undefined, currency = Defined ''USD'',
           currencyAsSymbol = Defined False\<rparr>)])"
proof -
  have h: "(Undefined :: string nullable) = Undefined \<or> (Undefined :: string nullable) = Null"
    by simp
  show ?thesis
    using default_bounds_by_style [OF h, where format = recordingFormat
        and toNumber = sampleToNumber and loc = "''en-US''" and n = "Finite 1"
        and code = Undefined and symbol = Undefined and w = "[]"]
    by (simp add: returnFormat_def recordingFormat_def defaultParam_simps)
qed

text \<open>
  C8. The currency pipe fills in the parameters that the caller omits: the currency
  code becomes \<^verbatim>\<open>'USD'\<close> and the symbol flag \<^verbatim>\<open>false\<close>, and both are handed to
  \<^verbatim>\<open>formatNumber\<close>, which hands them on to the formatter.
\<close>

theorem currency_parameter_defaults:
  "CurrencyPipe_transform format toNumber loc v Undefined Undefined digits w =
     formatNumber format toNumber CurrencyPipe loc v Currency (defaultParam Null digits)
       (Defined ''USD'') (Defined False) w
   \<and> CurrencyPipe_transform format toNumber loc v Undefined Undefined digits w =
     CurrencyPipe_transform format toNumber loc v (Defined ''USD'') (Defined False) digits w
   \<and> CurrencyPipe_transform format toNumber loc v (Defined code) Undefined digits w =
     formatNumber format toNumber CurrencyPipe loc v Currency (defaultParam Null digits)
       (Defined code) (Defined False) w
   \<and> CurrencyPipe_transform format toNumber loc (JsNumber n) Undefined Undefined Undefined w =
     returnFormat format (JsNumber n) loc Currency
       \<lparr>minimumIntegerDigits = Undefined, minimumFractionDigits = Undefined,
        maximumFractionDigits = Undefined, currency = Defined ''USD'',
        currencyAsSymbol = Defined False\<rparr> w"
proof -
  have "CurrencyPipe_transform format toNumber loc (JsNumber n) Undefined Undefined Undefined w =
     returnFormat format (JsNumber n) loc Currency
       \<lparr>minimumIntegerDigits = Undefined, minimumFractionDigits = Undefined,
        maximumFractionDigits = Undefined, currency = Defined ''USD'',
        currencyAsSymbol = Defined False\<rparr> w"
    unfolding CurrencyPipe_transform_def defaultParam_simps
    by (subst formatNumber_no_digits) (simp_all add: defaultParam_simps)
  then show ?thesis
    by (simp add: CurrencyPipe_transform_def defaultParam_simps)
qed

theorem currency_parameter_defaults_witness:
  "CurrencyPipe_transform recordingFormat sampleToNumber ''en-US'' (JsNumber (Finite 5)) Undefined
     Undefined Undefined [] =
     (Inr (Defined ''formatted''),
        [(JsNumber (Finite 5), ''en-US'', Currency,
          \<lparr>minimumIntegerDigits = Undefined, minimumFractionDigits = Undefined,
           maximumFractionDigits = Undefined, currency = Defined ''USD'',
           currencyAsSymbol = Defined False\<rparr>)])"
  using currency_parameter_defaults [where format = recordingFormat and n = "Finite 5"
      and loc = "''en-US''" and toNumber = sampleToNumber and w = "[]"
      and v = "JsNumber (Finite 5)" and digits = Undefined and code = "''EUR''",
      THEN conjunct2, THEN conjunct2, THEN conjunct2]
  by (simp add: returnFormat_def recordingFormat_def)

subsection \<open>The outcomes of formatNumber\<close>

lemma formatNumber_number_outcome:
  "(\<exists>opts. \<forall>(format :: 'w NumberFormatter) w.
       formatNumber format toNumber pipe loc (JsNumber n) style digits c a w =
       returnFormat format (JsNumber n) loc style opts w)
   \<or> (\<exists>d. digits = Defined d \<and> NUMBER_FORMAT_REGEXP_match d = None
         \<and> (\<forall>(format :: 'w NumberFormatter) w.
               formatNumber format toNumber pipe loc (JsNumber n) style digits c a w =
               (Inl (Error (d @ '' is not a valid digit info for number pipes'')), w)))"
proof (cases digits)
  case Undefined
  then show ?thesis
    by (intro disjI1 exI allI) (rule formatNumber_no_digits, simp)
next
  case Null
  then show ?thesis
    by (intro disjI1 exI allI) (rule formatNumber_no_digits, simp)
next
  case (Defined d)
  show ?thesis
  proof (cases "NUMBER_FORMAT_REGEXP_match d = None")
    case True
    then show ?thesis
      using Defined by (simp add: formatNumber_no_match)
  next
    case False
    then obtain x y z where "\<forall>(format :: 'w NumberFormatter) w.
        formatNumber format toNumber pipe loc (JsNumber n) style (Defined d) c a w =
        returnFormat format (JsNumber n) loc style
          \<lparr>minimumIntegerDigits = x, minimumFractionDigits = y, maximumFractionDigits = z,
           currency = defaultParam Null c,
           currencyAsSymbol = defaultParam (Defined False) a\<rparr> w"
      using formatNumber_digits_outcome [of d toNumber pipe loc n style c a] by auto
    then show ?thesis
      unfolding Defined by (intro disjI1 exI)
  qed
qed

lemma formatNumber_outcomes:
  "(isBlank v \<and> (\<forall>(format :: 'w NumberFormatter) w.
        formatNumber format toNumber pipe loc v style digits c a w = (Inr Null, w)))
   \<or> (\<not> isBlank v \<and> \<not> isNumber v \<and> (\<forall>(format :: 'w NumberFormatter) w.
        formatNumber format toNumber pipe loc v style digits c a w =
        (Inl (InvalidPipeArgumentError pipe v), w)))
   \<or> (\<exists>d. digits = Defined d \<and> (\<forall>(format :: 'w NumberFormatter) w.
        formatNumber format toNumber pipe loc v style digits c a w =
        (Inl (Error (d @ '' is not a valid digit info for number pipes'')), w)))
   \<or> (\<exists>v' opts. isNumber v' \<and> (\<forall>(format :: 'w NumberFormatter) w.
        formatNumber format toNumber pipe loc v style digits c a w =
        returnFormat format v' loc style opts w))"
proof -
  consider (blank) "isBlank v"
    | (num) n where "v = JsNumber n"
    | (str) s where "v = JsString s" "isNumeric s"
    | (bad) "\<not> isBlank v" "\<not> isNumber v" "\<forall>s. v = JsString s \<longrightarrow> \<not> isNumeric s"
    by (cases v) (auto simp: isBlank_def isNumber_def)
  then show ?thesis
  proof cases
    case blank
    then show ?thesis
      by (simp add: formatNumber_blank)
  next
    case (num n)
    have "isNumber (JsNumber n)"
      by (simp add: isNumber_def)
    then show ?thesis
      using formatNumber_number_outcome [of toNumber pipe loc n style digits c a, where 'w = 'w]
      unfolding num by blast
  next
    case (str s)
    have "isNumber (JsNumber (toNumber s))"
      by (simp add: isNumber_def)
    then show ?thesis
      using formatNumber_number_outcome [of toNumber pipe loc "toNumber s" style digits c a,
          where 'w = 'w]
      unfolding str(1) formatNumber_numeric_string [OF str(2)] by blast
  next
    case bad
    then show ?thesis
      by (simp add: formatNumber_not_numeric)
  qed
qed

lemma returnFormat_pure:
  assumes "pureFormatter format"
  shows "snd (returnFormat format v loc style opts w) = w"
    and "fst (returnFormat format v loc style opts w) = fst (returnFormat format v loc style opts w')"
proof -
  have s: "snd (format v loc style opts w) = w" for w
    using assms unfolding pureFormatter_def by blast
  have f: "fst (format v loc style opts w) = fst (format v loc style opts w')"
    using assms unfolding pureFormatter_def by blast
  have r: "returnFormat format v loc style opts w =
      (case fst (format v loc style opts w) of Inl e \<Rightarrow> Inl e | Inr t \<Rightarrow> Inr (Defined t),
       snd (format v loc style opts w))" for w
    by (simp add: returnFormat_def split: prod.splits sum.splits)
  show "snd (returnFormat format v loc style opts w) = w"
    by (simp add: r s)
  show "fst (returnFormat format v loc style opts w) = fst (returnFormat format v loc style opts w')"
    by (simp add: r f)
qed

lemma formatNumber_pure:
  assumes "pureFormatter format"
  shows "snd (formatNumber format toNumber pipe loc v style digits c a w) = w"
    and "fst (formatNumber format toNumber pipe loc v style digits c a w) =
         fst (formatNumber format toNumber pipe loc v style digits c a w')"
  using formatNumber_outcomes [of v toNumber pipe loc style digits c a, where 'w = 'a]
    returnFormat_pure [OF assms]
  by auto

subsection \<open>Determinism\<close>

text \<open>
  C9. \<^verbatim>\<open>formatNumber\<close> has no state of its own: with a formatter that is a pure function
  of its arguments, a second call with the same arguments (value, locale, style, digit
  info, currency code, symbol flag), made in the state that the first call left,
  returns the same output; so does a call made in any other state, and a call leaves
  the state as it found it.
\<close>

theorem formatNumber_deterministic:
  assumes "pureFormatter format"
  shows "fst (formatNumber format toNumber pipe loc v style digits c a
              (snd (formatNumber format toNumber pipe loc v style digits c a w))) =
         fst (formatNumber format toNumber pipe loc v style digits c a w)
    \<and> fst (formatNumber format toNumber pipe loc v style digits c a w') =
         fst (formatNumber format toNumber pipe loc v style digits c a w)
    \<and> snd (formatNumber format toNumber pipe loc v style digits c a w) = w"
  using formatNumber_pure [OF assms] by metis

theorem formatNumber_deterministic_witness:
  "pureFormatter (localeFormat :: nat NumberFormatter)
   \<and> fst (formatNumber localeFormat sampleToNumber DecimalPipe ''en-US'' (JsString ''42.5'') Decimal
        (Defined ''1.2-2'') Undefined Undefined
        (snd (formatNumber localeFormat sampleToNumber DecimalPipe ''en-US'' (JsString ''42.5'')
           Decimal (Defined ''1.2-2'') Undefined Undefined (0 :: nat)))) =
     fst (formatNumber localeFormat sampleToNumber DecimalPipe ''en-US'' (JsString ''42.5'') Decimal
        (Defined ''1.2-2'') Undefined Undefined (0 :: nat))
   \<and> fst (formatNumber localeFormat sampleToNumber DecimalPipe ''en-US'' (JsString ''42.5'') Decimal
        (Defined ''1.2-2'') Undefined Undefined (7 :: nat)) =
     fst (formatNumber localeFormat sampleToNumber DecimalPipe ''en-US'' (JsString ''42.5'') Decimal
        (Defined ''1.2-2'') Undefined Undefined (0 :: nat))
   \<and> snd (formatNumber localeFormat sampleToNumber DecimalPipe ''en-US'' (JsString ''42.5'') Decimal
        (Defined ''1.2-2'') Undefined Undefined (0 :: nat)) = 0"
proof -
  have h: "pureFormatter (localeFormat :: nat NumberFormatter)"
    by (simp add: pureFormatter_def localeFormat_def)
  show ?thesis
    using h formatNumber_deterministic [OF h, where toNumber = sampleToNumber and pipe = DecimalPipe
        and loc = "''en-US''" and v = "JsString ''42.5''" and style = Decimal
        and digits = "Defined ''1.2-2''" and c = Undefined and a = Undefined and w = 0 and w' = 7]
    by simp
qed

text \<open>
  The hypothesis is needed: with the formatter that counts its calls, the second of two
  calls answers differently.
\<close>

lemma impure_formatter_differs:
  "fst (formatNumber countingFormat sampleToNumber DecimalPipe ''en-US'' (JsNumber (Finite 1)) Decimal
        Null Undefined Undefined
        (snd (formatNumber countingFormat sampleToNumber DecimalPipe ''en-US'' (JsNumber (Finite 1))
           Decimal Null Undefined Undefined 0))) \<noteq>
   fst (formatNumber countingFormat sampleToNumber DecimalPipe ''en-US'' (JsNumber (Finite 1)) Decimal
        Null Undefined Undefined 0)"
  by (simp add: formatNumber_no_digits returnFormat_def countingFormat_def)

subsection \<open>The digit info\<close>

lemma formatNumber_3_2_4:
  "formatNumber format toNumber pipe loc (JsNumber n) style (Defined ''3.2-4'') c a w =
     returnFormat format (JsNumber n) loc style
       \<lparr>minimumIntegerDigits = Defined 3, minimumFractionDigits = Defined 2,
        maximumFractionDigits = Defined 4, currency = defaultParam Null c,
        currencyAsSymbol = defaultParam (Defined False) a\<rparr> w"
  by (rule formatNumber_match [OF match_examples(1)])
    (simp_all add: assignPart_def parse_examples)

lemma formatNumber_0_0_0:
  "formatNumber format toNumber pipe loc (JsNumber n) style (Defined ''0.0-0'') c a w =
     returnFormat format (JsNumber n) loc style
       \<lparr>minimumIntegerDigits = Defined 0, minimumFractionDigits = Defined 0,
        maximumFractionDigits = Defined 0, currency = defaultParam Null c,
        currencyAsSymbol = defaultParam (Defined False) a\<rparr> w"
  by (rule formatNumber_match [OF match_examples(2)])
    (simp_all add: assignPart_def parse_examples)

lemma formatNumber_dot_2:
  "formatNumber format toNumber pipe loc (JsNumber n) style (Defined ''.2'') c a w =
     returnFormat format (JsNumber n) loc style
       \<lparr>minimumIntegerDigits = (if style = Currency then Undefined else Defined 1),
        minimumFractionDigits = Defined 2,
        maximumFractionDigits = (if style = Currency then Undefined else Defined 3),
        currency = defaultParam Null c,
        currencyAsSymbol = defaultParam (Defined False) a\<rparr> w"
  by (rule formatNumber_match [OF match_examples(3)])
    (simp_all add: assignPart_def parse_examples)

lemma formatNumber_dot:
  "formatNumber format toNumber pipe loc (JsNumber n) style (Defined ''.'') c a w =
     returnFormat format (JsNumber n) loc style
       \<lparr>minimumIntegerDigits = (if style = Currency then Undefined else Defined 1),
        minimumFractionDigits = (if style = Currency then Undefined else Defined 0),
        maximumFractionDigits = (if style = Currency then Undefined else Defined 3),
        currency = defaultParam Null c,
        currencyAsSymbol = defaultParam (Defined False) a\<rparr> w"
  by (rule formatNumber_match [OF match_examples(4)])
    (simp_all add: assignPart_def parse_examples)

lemma returnFormat_never_fails:
  "returnFormat (\<lambda>v loc style opts w. (Inr [], w)) v loc style opts w = (Inr (Defined ''''), w)"
  by (simp add: returnFormat_def)

lemma digit_info_accepted_iff:
  "NUMBER_FORMAT_REGEXP_match d \<noteq> None \<longleftrightarrow>
     (\<exists>x y z. \<forall>(format :: 'w NumberFormatter) w.
        formatNumber format toNumber pipe loc (JsNumber n) style (Defined d) c a w =
        returnFormat format (JsNumber n) loc style
          \<lparr>minimumIntegerDigits = x, minimumFractionDigits = y, maximumFractionDigits = z,
           currency = defaultParam Null c,
           currencyAsSymbol = defaultParam (Defined False) a\<rparr> w)"
proof
  assume "NUMBER_FORMAT_REGEXP_match d \<noteq> None"
  then show "\<exists>x y z. \<forall>(format :: 'w NumberFormatter) w.
        formatNumber format toNumber pipe loc (JsNumber n) style (Defined d) c a w =
        returnFormat format (JsNumber n) loc style
          \<lparr>minimumIntegerDigits = x, minimumFractionDigits = y, maximumFractionDigits = z,
           currency = defaultParam Null c,
           currencyAsSymbol = defaultParam (Defined False) a\<rparr> w"
    using formatNumber_digits_outcome [of d toNumber pipe loc n style c a, where 'w = 'w] by simp
next
  assume "\<exists>x y z. \<forall>(format :: 'w NumberFormatter) w.
        formatNumber format toNumber pipe loc (JsNumber n) style (Defined d) c a w =
        returnFormat format (JsNumber n) loc style
          \<lparr>minimumIntegerDigits = x, minimumFractionDigits = y, maximumFractionDigits = z,
           currency = defaultParam Null c,
           currencyAsSymbol = defaultParam (Defined False) a\<rparr> w"
  then obtain x y z where ok: "\<And>(format :: 'w NumberFormatter) w.
        formatNumber format toNumber pipe loc (JsNumber n) style (Defined d) c a w =
        returnFormat format (JsNumber n) loc style
          \<lparr>minimumIntegerDigits = x, minimumFractionDigits = y, maximumFractionDigits = z,
           currency = defaultParam Null c,
           currencyAsSymbol = defaultParam (Defined False) a\<rparr> w"
    by blast
  show "NUMBER_FORMAT_REGEXP_match d \<noteq> None"
  proof
    assume none: "NUMBER_FORMAT_REGEXP_match d = None"
    show False
      using ok [of "\<lambda>v loc style opts w. (Inr [], w)" undefined]
      by (simp add: formatNumber_no_match [OF none] returnFormat_never_fails)
  qed
qed

lemma digit_info_rejected_iff:
  "NUMBER_FORMAT_REGEXP_match d = None \<longleftrightarrow>
     (\<forall>(format :: 'w NumberFormatter) w.
        formatNumber format toNumber pipe loc (JsNumber n) style (Defined d) c a w =
        (Inl (Error (d @ '' is not a valid digit info for number pipes'')), w))"
proof
  assume "NUMBER_FORMAT_REGEXP_match d = None"
  then show "\<forall>(format :: 'w NumberFormatter) w.
        formatNumber format toNumber pipe loc (JsNumber n) style (Defined d) c a w =
        (Inl (Error (d @ '' is not a valid digit info for number pipes'')), w)"
    by (simp add: formatNumber_no_match)
next
  assume bad: "\<forall>(format :: 'w NumberFormatter) w.
        formatNumber format toNumber pipe loc (JsNumber n) style (Defined d) c a w =
        (Inl (Error (d @ '' is not a valid digit info for number pipes'')), w)"
  show "NUMBER_FORMAT_REGEXP_match d = None"
  proof (rule ccontr)
    assume "NUMBER_FORMAT_REGEXP_match d \<noteq> None"
    then obtain x y z where ok: "\<And>(format :: 'w NumberFormatter) w.
        formatNumber format toNumber pipe loc (JsNumber n) style (Defined d) c a w =
        returnFormat format (JsNumber n) loc style
          \<lparr>minimumIntegerDigits = x, minimumFractionDigits = y, maximumFractionDigits = z,
           currency = defaultParam Null c,
           currencyAsSymbol = defaultParam (Defined False) a\<rparr> w"
      using formatNumber_digits_outcome [of d toNumber pipe loc n style c a, where 'w = 'w] by auto
    show False
      using ok [of "\<lambda>v loc style opts w. (Inr [], w)" undefined] bad
      by (simp add: returnFormat_never_fails)
  qed
qed

lemma match_iff_grammar: "NUMBER_FORMAT_REGEXP_match d \<noteq> None \<longleftrightarrow> digitInfoGrammar d"
  using grammar_matches match_in_grammar by blast

text \<open>
  Every string of the grammar \<^verbatim>\<open>[<minInt>].[<minFrac>[-<maxFrac>]]\<close> is a string of the
  grammar of the specification; \<^verbatim>\<open>"1.-3"\<close> shows that the converse fails.
\<close>

lemma grammar_in_spec_grammar:
  assumes "digitInfoGrammar s"
  shows "specDigitGrammar s"
proof -
  from assms obtain minInt fraction where s: "s = minInt @ ''.'' @ fraction"
    and mi: "minInt = [] \<or> digitRun minInt"
    and fr: "fraction = [] \<or> (\<exists>minFrac maxPart. fraction = minFrac @ maxPart \<and> digitRun minFrac
               \<and> (maxPart = [] \<or> (\<exists>maxFrac. maxPart = ''-'' @ maxFrac \<and> digitRun maxFrac)))"
    unfolding digitInfoGrammar_def by blast
  from fr obtain minFrac maxPart where f: "fraction = minFrac @ maxPart"
    and mf: "minFrac = [] \<or> digitRun minFrac"
    and mp: "maxPart = [] \<or> (\<exists>maxFrac. maxPart = ''-'' @ maxFrac \<and> digitRun maxFrac)"
    by (metis append_Nil)
  show ?thesis
    unfolding specDigitGrammar_def
    by (rule exI [of _ minInt], rule exI [of _ minFrac], rule exI [of _ maxPart])
      (use s f mi mf mp in simp)
qed

lemma spec_grammar_example: "specDigitGrammar ''1.-3''"
  unfolding specDigitGrammar_def
  by (rule exI [of _ "''1''"], rule exI [of _ "[]"], rule exI [of _ "''-3''"])
    (simp add: digitRun_def isDigit_def)

lemma grammar_examples:
  "digitInfoGrammar ''3.2-4''" "digitInfoGrammar ''0.0-0''" "digitInfoGrammar ''.2''"
  "digitInfoGrammar ''.''"
  "\<not> digitInfoGrammar ''''" "\<not> digitInfoGrammar ''1.2.3''" "\<not> digitInfoGrammar ''abc''"
  "\<not> digitInfoGrammar ''1-2''" "\<not> digitInfoGrammar ''1.-3''"
  by (simp_all add: match_iff_grammar [symmetric] match_examples)

lemma formatNumber_match_fields:
  assumes "NUMBER_FORMAT_REGEXP_match d = Some parts"
  shows "\<exists>x y z.
      (parts ! 1 = Undefined \<longrightarrow> x = (if style = Currency then Undefined else Defined 1))
    \<and> (parts ! 3 = Undefined \<longrightarrow> y = (if style = Currency then Undefined else Defined 0))
    \<and> (parts ! 5 = Undefined \<longrightarrow> z = (if style = Currency then Undefined else Defined 3))
    \<and> (\<forall>(format :: 'w NumberFormatter) w.
          formatNumber format toNumber pipe loc (JsNumber n) style (Defined d) c a w =
          returnFormat format (JsNumber n) loc style
            \<lparr>minimumIntegerDigits = x, minimumFractionDigits = y, maximumFractionDigits = z,
             currency = defaultParam Null c,
             currencyAsSymbol = defaultParam (Defined False) a\<rparr> w)"
proof -
  obtain x where x: "assignPart (parts ! 1) (if style = Currency then Undefined else Defined 1) = Inr x"
    "parts ! 1 = Undefined \<longrightarrow> x = (if style = Currency then Undefined else Defined 1)"
    using assignPart_group [OF match_parts(2) [OF assms]] by blast
  obtain y where y: "assignPart (parts ! 3) (if style = Currency then Undefined else Defined 0) = Inr y"
    "parts ! 3 = Undefined \<longrightarrow> y = (if style = Currency then Undefined else Defined 0)"
    using assignPart_group [OF match_parts(3) [OF assms]] by blast
  obtain z where z: "assignPart (parts ! 5) (if style = Currency then Undefined else Defined 3) = Inr z"
    "parts ! 5 = Undefined \<longrightarrow> z = (if style = Currency then Undefined else Defined 3)"
    using assignPart_group [OF match_parts(4) [OF assms]] by blast
  have "\<forall>(format :: 'w NumberFormatter) w.
          formatNumber format toNumber pipe loc (JsNumber n) style (Defined d) c a w =
          returnFormat format (JsNumber n) loc style
            \<lparr>minimumIntegerDigits = x, minimumFractionDigits = y, maximumFractionDigits = z,
             currency = defaultParam Null c,
             currencyAsSymbol = defaultParam (Defined False) a\<rparr> w"
    by (simp add: formatNumber_match [OF assms x(1) y(1) z(1)])
  with x(2) y(2) z(2) show ?thesis
    by blast
qed

lemma returnFormat_error:
  assumes "returnFormat format v loc style opts w = (Inl e, w')"
  shows "format v loc style opts w = (Inl e, w')"
  using assms by (auto simp: returnFormat_def split: prod.splits sum.splits)

subsection \<open>The empty digit info\<close>

text \<open>
  C1, as the code has it. The dot of the digit info is mandatory, so the string with
  every field left out is \<^verbatim>\<open>"."\<close>: for every style (and a number to format) it is
  accepted and overrides nothing, the formatter gets the defaults of the style, exactly
  as with no digit info at all. The entirely empty string \<^verbatim>\<open>""\<close> is present
  (it is neither \<^verbatim>\<open>undefined\<close> nor \<^verbatim>\<open>null\<close>) and does not match the regular expression:
  for every style it throws the error of line 40, whose message starts with the string
  itself.
\<close>

theorem bare_dot_no_overrides:
  "formatNumber format toNumber pipe loc (JsNumber n) style (Defined ''.'') c a w =
     returnFormat format (JsNumber n) loc style
       \<lparr>minimumIntegerDigits = (if style = Currency then Undefined else Defined 1),
        minimumFractionDigits = (if style = Currency then Undefined else Defined 0),
        maximumFractionDigits = (if style = Currency then Undefined else Defined 3),
        currency = defaultParam Null c,
        currencyAsSymbol = defaultParam (Defined False) a\<rparr> w
   \<and> formatNumber format toNumber pipe loc (JsNumber n) style (Defined ''.'') c a w =
     formatNumber format toNumber pipe loc (JsNumber n) style Null c a w
   \<and> formatNumber format toNumber pipe loc (JsNumber n) style (Defined '''') c a w =
     (Inl (Error '' is not a valid digit info for number pipes''), w)"
proof -
  have e: "NUMBER_FORMAT_REGEXP_match [] = None"
    by (rule match_examples(5))
  have 1: "formatNumber format toNumber pipe loc (JsNumber n) style (Defined '''') c a w =
     (Inl (Error '' is not a valid digit info for number pipes''), w)"
    by (simp add: formatNumber_no_match [OF e])
  have 2: "formatNumber format toNumber pipe loc (JsNumber n) style Null c a w =
     returnFormat format (JsNumber n) loc style
       \<lparr>minimumIntegerDigits = (if style = Currency then Undefined else Defined 1),
        minimumFractionDigits = (if style = Currency then Undefined else Defined 0),
        maximumFractionDigits = (if style = Currency then Undefined else Defined 3),
        currency = defaultParam Null c,
        currencyAsSymbol = defaultParam (Defined False) a\<rparr> w"
    by (rule formatNumber_no_digits) simp
  show ?thesis
    by (intro conjI) (rule formatNumber_dot, simp only: formatNumber_dot 2, rule 1)
qed

text \<open>An instance: the percent style, with the formatter that records its calls.\<close>

theorem bare_dot_no_overrides_witness:
  "formatNumber recordingFormat sampleToNumber PercentPipe ''en-US'' (JsNumber (Finite 1)) Percent
     (Defined ''.'') Undefined Undefined [] =
     (Inr (Defined ''formatted''),
      [(JsNumber (Finite 1), ''en-US'', Percent,
        \<lparr>minimumIntegerDigits = Defined 1, minimumFractionDigits = Defined 0,
         maximumFractionDigits = Defined 3, currency = Null, currencyAsSymbol = Defined False\<rparr>)])
   \<and> formatNumber recordingFormat sampleToNumber PercentPipe ''en-US'' (JsNumber (Finite 1)) Percent
     (Defined '''') Undefined Undefined [] =
     (Inl (Error '' is not a valid digit info for number pipes''), [])"
proof -
  note t = bare_dot_no_overrides [where format = recordingFormat and toNumber = sampleToNumber
      and pipe = PercentPipe and loc = "''en-US''" and n = "Finite 1" and style = Percent
      and c = Undefined and a = Undefined and w = "[]"]
  have 1: "formatNumber recordingFormat sampleToNumber PercentPipe ''en-US'' (JsNumber (Finite 1))
     Percent (Defined ''.'') Undefined Undefined [] =
     (Inr (Defined ''formatted''),
      [(JsNumber (Finite 1), ''en-US'', Percent,
        \<lparr>minimumIntegerDigits = Defined 1, minimumFractionDigits = Defined 0,
         maximumFractionDigits = Defined 3, currency = Null, currencyAsSymbol = Defined False\<rparr>)])"
    using t [THEN conjunct1]
    by (simp add: returnFormat_def recordingFormat_def defaultParam_simps)
  show ?thesis
    by (rule conjI [OF 1 t [THEN conjunct2, THEN conjunct2]])
qed

text \<open>
  C1, as it is stated, fails: the decimal pipe called with the number 1 and the digit
  info \<^verbatim>\<open>""\<close> throws, and the formatter is not called.
\<close>

theorem empty_digit_info_counterexample:
  "DecimalPipe_transform recordingFormat sampleToNumber ''en-US'' (JsNumber (Finite 1))
     (Defined '''') [] =
     (Inl (Error '' is not a valid digit info for number pipes''), [])"
proof -
  have e: "NUMBER_FORMAT_REGEXP_match [] = None"
    by (rule match_examples(5))
  show ?thesis
    by (simp add: DecimalPipe_transform_def defaultParam_simps formatNumber_no_match [OF e])
qed

subsection \<open>The digit info and its grammar\<close>

text \<open>
  C2, as the code has it. A digit info is accepted (the three bounds are computed and
  the formatter is called with them) if and only if it is in the grammar
  \<^verbatim>\<open>[<minInt>].[<minFrac>[-<maxFrac>]]\<close>, and it is rejected with the error whose
  message carries the string if and only if it is not. \<^verbatim>\<open>"3.2-4"\<close> gives the bounds
  3, 2 and 4, \<^verbatim>\<open>"0.0-0"\<close> gives three zeros, and \<^verbatim>\<open>"1.2.3"\<close>, \<^verbatim>\<open>"abc"\<close>, \<^verbatim>\<open>"1-2"\<close>
  and \<^verbatim>\<open>"1.-3"\<close> are rejected.
\<close>

theorem digit_info_parses_iff_grammar:
  "(digitInfoGrammar d \<longleftrightarrow>
      (\<exists>x y z. \<forall>(format :: 'w NumberFormatter) w.
         formatNumber format toNumber pipe loc (JsNumber n) style (Defined d) c a w =
         returnFormat format (JsNumber n) loc style
           \<lparr>minimumIntegerDigits = x, minimumFractionDigits = y, maximumFractionDigits = z,
            currency = defaultParam Null c,
            currencyAsSymbol = defaultParam (Defined False) a\<rparr> w))
   \<and> (\<not> digitInfoGrammar d \<longleftrightarrow>
      (\<forall>(format :: 'w NumberFormatter) w.
         formatNumber format toNumber pipe loc (JsNumber n) style (Defined d) c a w =
         (Inl (Error (d @ '' is not a valid digit info for number pipes'')), w)))
   \<and> formatNumber (format :: 'w NumberFormatter) toNumber pipe loc (JsNumber n) style
         (Defined ''3.2-4'') c a w =
       returnFormat format (JsNumber n) loc style
         \<lparr>minimumIntegerDigits = Defined 3, minimumFractionDigits = Defined 2,
          maximumFractionDigits = Defined 4, currency = defaultParam Null c,
          currencyAsSymbol = defaultParam (Defined False) a\<rparr> w
   \<and> formatNumber format toNumber pipe loc (JsNumber n) style (Defined ''0.0-0'') c a w =
       returnFormat format (JsNumber n) loc style
         \<lparr>minimumIntegerDigits = Defined 0, minimumFractionDigits = Defined 0,
          maximumFractionDigits = Defined 0, currency = defaultParam Null c,
          currencyAsSymbol = defaultParam (Defined False) a\<rparr> w
   \<and> formatNumber format toNumber pipe loc (JsNumber n) style (Defined ''1.2.3'') c a w =
       (Inl (Error ''1.2.3 is not a valid digit info for number pipes''), w)
   \<and> formatNumber format toNumber pipe loc (JsNumber n) style (Defined ''abc'') c a w =
       (Inl (Error ''abc is not a valid digit info for number pipes''), w)
   \<and> formatNumber format toNumber pipe loc (JsNumber n) style (Defined ''1-2'') c a w =
       (Inl (Error ''1-2 is not a valid digit info for number pipes''), w)
   \<and> formatNumber format toNumber pipe loc (JsNumber n) style (Defined ''1.-3'') c a w =
       (Inl (Error ''1.-3 is not a valid digit info for number pipes''), w)"
proof -
  have accepted: "digitInfoGrammar d \<longleftrightarrow>
      (\<exists>x y z. \<forall>(format :: 'w NumberFormatter) w.
         formatNumber format toNumber pipe loc (JsNumber n) style (Defined d) c a w =
         returnFormat format (JsNumber n) loc style
           \<lparr>minimumIntegerDigits = x, minimumFractionDigits = y, maximumFractionDigits = z,
            currency = defaultParam Null c,
            currencyAsSymbol = defaultParam (Defined False) a\<rparr> w)"
    unfolding match_iff_grammar [symmetric] by (rule digit_info_accepted_iff)
  have rejected: "\<not> digitInfoGrammar d \<longleftrightarrow>
      (\<forall>(format :: 'w NumberFormatter) w.
         formatNumber format toNumber pipe loc (JsNumber n) style (Defined d) c a w =
         (Inl (Error (d @ '' is not a valid digit info for number pipes'')), w))"
    unfolding match_iff_grammar [symmetric] using digit_info_rejected_iff by simp
  have e1: "formatNumber format toNumber pipe loc (JsNumber n) style (Defined ''1.2.3'') c a w =
       (Inl (Error ''1.2.3 is not a valid digit info for number pipes''), w)"
    using formatNumber_no_match [OF match_examples(6)] by simp
  have e2: "formatNumber format toNumber pipe loc (JsNumber n) style (Defined ''abc'') c a w =
       (Inl (Error ''abc is not a valid digit info for number pipes''), w)"
    using formatNumber_no_match [OF match_examples(7)] by simp
  have e3: "formatNumber format toNumber pipe loc (JsNumber n) style (Defined ''1-2'') c a w =
       (Inl (Error ''1-2 is not a valid digit info for number pipes''), w)"
    using formatNumber_no_match [OF match_examples(8)] by simp
  have e4: "formatNumber format toNumber pipe loc (JsNumber n) style (Defined ''1.-3'') c a w =
       (Inl (Error ''1.-3 is not a valid digit info for number pipes''), w)"
    using formatNumber_no_match [OF match_examples(9)] by simp
  show ?thesis
    by (intro conjI)
      (rule accepted, rule rejected, rule formatNumber_3_2_4, rule formatNumber_0_0_0,
        rule e1, rule e2, rule e3, rule e4)
qed

text \<open>An instance: the decimal style, with the formatter that records its calls.\<close>

theorem digit_info_parses_iff_grammar_witness:
  "digitInfoGrammar ''3.2-4''
   \<and> formatNumber recordingFormat sampleToNumber DecimalPipe ''en-US'' (JsNumber (Finite 1)) Decimal
     (Defined ''3.2-4'') Undefined Undefined [] =
     (Inr (Defined ''formatted''),
      [(JsNumber (Finite 1), ''en-US'', Decimal,
        \<lparr>minimumIntegerDigits = Defined 3, minimumFractionDigits = Defined 2,
         maximumFractionDigits = Defined 4, currency = Null, currencyAsSymbol = Defined False\<rparr>)])
   \<and> formatNumber recordingFormat sampleToNumber DecimalPipe ''en-US'' (JsNumber (Finite 1)) Decimal
     (Defined ''1.2.3'') Undefined Undefined [] =
     (Inl (Error ''1.2.3 is not a valid digit info for number pipes''), [])"
  using digit_info_parses_iff_grammar [where format = recordingFormat and toNumber = sampleToNumber
      and pipe = DecimalPipe and loc = "''en-US''" and n = "Finite 1" and style = Decimal
      and c = Undefined and a = Undefined and w = "[]" and d = "''3.2-4''"]
  by (simp add: returnFormat_def recordingFormat_def defaultParam_simps grammar_examples)

text \<open>
  C2, as it is stated, fails: \<^verbatim>\<open>"1.-3"\<close> is in the grammar of the specification
  (no second field, a hyphen and a third field), and the decimal pipe rejects it.
\<close>

theorem spec_grammar_counterexample:
  "specDigitGrammar ''1.-3''
   \<and> DecimalPipe_transform recordingFormat sampleToNumber ''en-US'' (JsNumber (Finite 1))
       (Defined ''1.-3'') [] =
     (Inl (Error ''1.-3 is not a valid digit info for number pipes''), [])"
  using formatNumber_no_match [OF match_examples(9)] spec_grammar_example
  by (simp add: DecimalPipe_transform_def defaultParam_simps)

subsection \<open>Overrides, field by field\<close>

text \<open>
  C7. For every style the digit info \<^verbatim>\<open>".2"\<close> sets \<^verbatim>\<open>minimumFractionDigits\<close> to 2 and
  leaves the other two bounds at the defaults of the style. In general, for every digit
  info that the regular expression matches, a bound whose capture group took no part in
  the match keeps the default of the style.
\<close>

theorem digit_info_overrides_fieldwise:
  "formatNumber (format :: 'w NumberFormatter) toNumber pipe loc (JsNumber n) style (Defined ''.2'') c a w =
     returnFormat format (JsNumber n) loc style
       \<lparr>minimumIntegerDigits = (if style = Currency then Undefined else Defined 1),
        minimumFractionDigits = Defined 2,
        maximumFractionDigits = (if style = Currency then Undefined else Defined 3),
        currency = defaultParam Null c,
        currencyAsSymbol = defaultParam (Defined False) a\<rparr> w
   \<and> (NUMBER_FORMAT_REGEXP_match d = Some parts \<longrightarrow>
        (\<exists>opts.
           (\<forall>(format :: 'w NumberFormatter) w.
              formatNumber format toNumber pipe loc (JsNumber n) style (Defined d) c a w =
              returnFormat format (JsNumber n) loc style opts w)
         \<and> (parts ! 1 = Undefined \<longrightarrow>
              minimumIntegerDigits opts = (if style = Currency then Undefined else Defined 1))
         \<and> (parts ! 3 = Undefined \<longrightarrow>
              minimumFractionDigits opts = (if style = Currency then Undefined else Defined 0))
         \<and> (parts ! 5 = Undefined \<longrightarrow>
              maximumFractionDigits opts = (if style = Currency then Undefined else Defined 3))))"
proof -
  have "\<exists>opts.
           (\<forall>(format :: 'w NumberFormatter) w.
              formatNumber format toNumber pipe loc (JsNumber n) style (Defined d) c a w =
              returnFormat format (JsNumber n) loc style opts w)
         \<and> (parts ! 1 = Undefined \<longrightarrow>
              minimumIntegerDigits opts = (if style = Currency then Undefined else Defined 1))
         \<and> (parts ! 3 = Undefined \<longrightarrow>
              minimumFractionDigits opts = (if style = Currency then Undefined else Defined 0))
         \<and> (parts ! 5 = Undefined \<longrightarrow>
              maximumFractionDigits opts = (if style = Currency then Undefined else Defined 3))"
    if m: "NUMBER_FORMAT_REGEXP_match d = Some parts"
  proof -
    obtain x y z where
      f: "parts ! 1 = Undefined \<longrightarrow> x = (if style = Currency then Undefined else Defined 1)"
        "parts ! 3 = Undefined \<longrightarrow> y = (if style = Currency then Undefined else Defined 0)"
        "parts ! 5 = Undefined \<longrightarrow> z = (if style = Currency then Undefined else Defined 3)"
      and r: "\<forall>(format :: 'w NumberFormatter) w.
          formatNumber format toNumber pipe loc (JsNumber n) style (Defined d) c a w =
          returnFormat format (JsNumber n) loc style
            \<lparr>minimumIntegerDigits = x, minimumFractionDigits = y, maximumFractionDigits = z,
             currency = defaultParam Null c,
             currencyAsSymbol = defaultParam (Defined False) a\<rparr> w"
      using formatNumber_match_fields [OF m, of style toNumber pipe loc n c a, where 'w = 'w]
      by blast
    show ?thesis
      by (rule exI [of _ "\<lparr>minimumIntegerDigits = x, minimumFractionDigits = y,
            maximumFractionDigits = z, currency = defaultParam Null c,
            currencyAsSymbol = defaultParam (Defined False) a\<rparr>"])
        (use f r in simp)
  qed
  then show ?thesis
    by (simp add: formatNumber_dot_2)
qed

text \<open>Instances: the percent and the currency style.\<close>

theorem digit_info_overrides_fieldwise_witness:
  "NUMBER_FORMAT_REGEXP_match ''.2'' =
     Some [Defined ''.2'', Undefined, Defined ''2'', Defined ''2'', Undefined, Undefined]
   \<and> formatNumber recordingFormat sampleToNumber PercentPipe ''en-US'' (JsNumber (Finite 1)) Percent
     (Defined ''.2'') Undefined Undefined [] =
     (Inr (Defined ''formatted''),
      [(JsNumber (Finite 1), ''en-US'', Percent,
        \<lparr>minimumIntegerDigits = Defined 1, minimumFractionDigits = Defined 2,
         maximumFractionDigits = Defined 3, currency = Null, currencyAsSymbol = Defined False\<rparr>)])
   \<and> formatNumber recordingFormat sampleToNumber CurrencyPipe ''en-US'' (JsNumber (Finite 1)) Currency
     (Defined ''.2'') (Defined ''USD'') (Defined False) [] =
     (Inr (Defined ''formatted''),
      [(JsNumber (Finite 1), ''en-US'', Currency,
        \<lparr>minimumIntegerDigits = Undefined, minimumFractionDigits = Defined 2,
         maximumFractionDigits = Undefined, currency = Defined ''USD'',
         currencyAsSymbol = Defined False\<rparr>)])
   \<and> (\<exists>opts.
         formatNumber recordingFormat sampleToNumber PercentPipe ''en-US'' (JsNumber (Finite 1))
           Percent (Defined ''.2'') Undefined Undefined [] =
         returnFormat recordingFormat (JsNumber (Finite 1)) ''en-US'' Percent opts []
       \<and> minimumIntegerDigits opts = Defined 1 \<and> maximumFractionDigits opts = Defined 3)"
proof -
  note percent = digit_info_overrides_fieldwise [where format = recordingFormat
      and toNumber = sampleToNumber and pipe = PercentPipe and loc = "''en-US''" and n = "Finite 1"
      and style = Percent and c = Undefined and a = Undefined and w = "[]" and d = "''.2''"
      and parts = "[Defined ''.2'', Undefined, Defined ''2'', Defined ''2'', Undefined, Undefined]"]
  note currency = digit_info_overrides_fieldwise [where format = recordingFormat
      and toNumber = sampleToNumber and pipe = CurrencyPipe and loc = "''en-US''" and n = "Finite 1"
      and style = Currency and c = "Defined ''USD''" and a = "Defined False" and w = "[]"]
  have m: "NUMBER_FORMAT_REGEXP_match ''.2'' =
     Some [Defined ''.2'', Undefined, Defined ''2'', Defined ''2'', Undefined, Undefined]"
    by (rule match_examples(3))
  have 1: "formatNumber recordingFormat sampleToNumber PercentPipe ''en-US'' (JsNumber (Finite 1))
     Percent (Defined ''.2'') Undefined Undefined [] =
     (Inr (Defined ''formatted''),
      [(JsNumber (Finite 1), ''en-US'', Percent,
        \<lparr>minimumIntegerDigits = Defined 1, minimumFractionDigits = Defined 2,
         maximumFractionDigits = Defined 3, currency = Null, currencyAsSymbol = Defined False\<rparr>)])"
    using percent [THEN conjunct1]
    by (simp add: returnFormat_def recordingFormat_def defaultParam_simps)
  have 2: "formatNumber recordingFormat sampleToNumber CurrencyPipe ''en-US'' (JsNumber (Finite 1))
     Currency (Defined ''.2'') (Defined ''USD'') (Defined False) [] =
     (Inr (Defined ''formatted''),
      [(JsNumber (Finite 1), ''en-US'', Currency,
        \<lparr>minimumIntegerDigits = Undefined, minimumFractionDigits = Defined 2,
         maximumFractionDigits = Undefined, currency = Defined ''USD'',
         currencyAsSymbol = Defined False\<rparr>)])"
    using currency [THEN conjunct1]
    by (simp add: returnFormat_def recordingFormat_def defaultParam_simps)
  have "\<exists>opts.
         formatNumber recordingFormat sampleToNumber PercentPipe ''en-US'' (JsNumber (Finite 1))
           Percent (Defined ''.2'') Undefined Undefined [] =
         returnFormat recordingFormat (JsNumber (Finite 1)) ''en-US'' Percent opts []
       \<and> minimumIntegerDigits opts = Defined 1 \<and> maximumFractionDigits opts = Defined 3"
    using percent [THEN conjunct2, THEN mp, OF m]
  proof (elim exE conjE)
    fix opts
    assume o: "\<forall>(format :: call list NumberFormatter) w.
          formatNumber format sampleToNumber PercentPipe ''en-US'' (JsNumber (Finite 1))
            Percent (Defined ''.2'') Undefined Undefined w =
          returnFormat format (JsNumber (Finite 1)) ''en-US'' Percent opts w"
      and i: "[Defined ''.2'', Undefined, Defined ''2'', Defined ''2'', Undefined, Undefined] ! 1
           = Undefined \<longrightarrow>
         minimumIntegerDigits opts = (if Percent = Currency then Undefined else Defined 1)"
      and f: "[Defined ''.2'', Undefined, Defined ''2'', Defined ''2'', Undefined, Undefined] ! 5
           = Undefined \<longrightarrow>
         maximumFractionDigits opts = (if Percent = Currency then Undefined else Defined 3)"
    have 3: "formatNumber recordingFormat sampleToNumber PercentPipe ''en-US'' (JsNumber (Finite 1))
           Percent (Defined ''.2'') Undefined Undefined [] =
         returnFormat recordingFormat (JsNumber (Finite 1)) ''en-US'' Percent opts []"
      by (rule o [rule_format])
    have 4: "minimumIntegerDigits opts = Defined 1"
      using i by simp
    have 5: "maximumFractionDigits opts = Defined 3"
      using f by simp
    show ?thesis
      by (rule exI [of _ opts]) (intro conjI, rule 3, rule 4, rule 5)
  qed
  then show ?thesis
    by (intro conjI) (rule m, rule 1, rule 2)
qed

subsection \<open>NaN\<close>

text \<open>
  C10. \<^verbatim>\<open>NaN\<close> is a number for the test of line 24. For every style, with no digit info
  or with one that the regular expression matches, \<^verbatim>\<open>formatNumber\<close> hands \<^verbatim>\<open>NaN\<close> to the
  formatter and returns what the formatter returns. And whenever a call ends with an
  \<^verbatim>\<open>InvalidPipeArgumentError\<close>, either the value passed was not a number (the error
  then carries that value and the pipe), or the formatter itself threw the error.
\<close>

theorem nan_is_delegated:
  "isNumber (JsNumber NaN)
   \<and> (digits = Undefined \<or> digits = Null \<longrightarrow>
        formatNumber (format :: 'w NumberFormatter) toNumber pipe loc (JsNumber NaN) style digits
          c a w =
        returnFormat format (JsNumber NaN) loc style
          \<lparr>minimumIntegerDigits = (if style = Currency then Undefined else Defined 1),
           minimumFractionDigits = (if style = Currency then Undefined else Defined 0),
           maximumFractionDigits = (if style = Currency then Undefined else Defined 3),
           currency = defaultParam Null c,
           currencyAsSymbol = defaultParam (Defined False) a\<rparr> w)
   \<and> (NUMBER_FORMAT_REGEXP_match d \<noteq> None \<longrightarrow>
        (\<exists>x y z. \<forall>(format :: 'w NumberFormatter) w.
           formatNumber format toNumber pipe loc (JsNumber NaN) style (Defined d) c a w =
           returnFormat format (JsNumber NaN) loc style
             \<lparr>minimumIntegerDigits = x, minimumFractionDigits = y, maximumFractionDigits = z,
              currency = defaultParam Null c,
              currencyAsSymbol = defaultParam (Defined False) a\<rparr> w))
   \<and> (formatNumber format toNumber pipe loc v style digits c a w =
         (Inl (InvalidPipeArgumentError p x), w') \<longrightarrow>
        (\<not> isNumber v \<and> x = v \<and> p = pipe \<and> w' = w)
        \<or> (\<exists>v' opts. isNumber v'
              \<and> format v' loc style opts w = (Inl (InvalidPipeArgumentError p x), w')))"
proof -
  have 1: "isNumber (JsNumber NaN)"
    by (simp add: isNumber_def)
  have 2: "digits = Undefined \<or> digits = Null \<longrightarrow>
        formatNumber (format :: 'w NumberFormatter) toNumber pipe loc (JsNumber NaN) style digits
          c a w =
        returnFormat format (JsNumber NaN) loc style
          \<lparr>minimumIntegerDigits = (if style = Currency then Undefined else Defined 1),
           minimumFractionDigits = (if style = Currency then Undefined else Defined 0),
           maximumFractionDigits = (if style = Currency then Undefined else Defined 3),
           currency = defaultParam Null c,
           currencyAsSymbol = defaultParam (Defined False) a\<rparr> w"
    by (rule impI, rule formatNumber_no_digits) blast
  have 3: "NUMBER_FORMAT_REGEXP_match d \<noteq> None \<longrightarrow>
        (\<exists>x y z. \<forall>(format :: 'w NumberFormatter) w.
           formatNumber format toNumber pipe loc (JsNumber NaN) style (Defined d) c a w =
           returnFormat format (JsNumber NaN) loc style
             \<lparr>minimumIntegerDigits = x, minimumFractionDigits = y, maximumFractionDigits = z,
              currency = defaultParam Null c,
              currencyAsSymbol = defaultParam (Defined False) a\<rparr> w)"
    using digit_info_accepted_iff [of d toNumber pipe loc NaN style c a, where 'w = 'w] by simp
  have 4: "formatNumber format toNumber pipe loc v style digits c a w =
         (Inl (InvalidPipeArgumentError p x), w') \<longrightarrow>
        (\<not> isNumber v \<and> x = v \<and> p = pipe \<and> w' = w)
        \<or> (\<exists>v' opts. isNumber v'
              \<and> format v' loc style opts w = (Inl (InvalidPipeArgumentError p x), w'))"
  proof (rule impI)
    assume r: "formatNumber format toNumber pipe loc v style digits c a w =
         (Inl (InvalidPipeArgumentError p x), w')"
    from formatNumber_outcomes [of v toNumber pipe loc style digits c a, where 'w = 'w]
    show "(\<not> isNumber v \<and> x = v \<and> p = pipe \<and> w' = w)
        \<or> (\<exists>v' opts. isNumber v'
              \<and> format v' loc style opts w = (Inl (InvalidPipeArgumentError p x), w'))"
    proof (elim disjE conjE exE)
      assume h: "\<forall>(format :: 'w NumberFormatter) w.
        formatNumber format toNumber pipe loc v style digits c a w = (Inr Null, w)"
      have e: "formatNumber format toNumber pipe loc v style digits c a w = (Inr Null, w)"
        by (rule h [rule_format])
      from trans [OF r [symmetric] e] show ?thesis
        by simp
    next
      assume nn: "\<not> isNumber v"
        and h: "\<forall>(format :: 'w NumberFormatter) w.
          formatNumber format toNumber pipe loc v style digits c a w =
          (Inl (InvalidPipeArgumentError pipe v), w)"
      have e: "formatNumber format toNumber pipe loc v style digits c a w =
          (Inl (InvalidPipeArgumentError pipe v), w)"
        by (rule h [rule_format])
      from trans [OF r [symmetric] e] have "x = v \<and> p = pipe \<and> w' = w"
        by simp
      with nn show ?thesis
        by blast
    next
      fix d
      assume h: "\<forall>(format :: 'w NumberFormatter) w.
          formatNumber format toNumber pipe loc v style digits c a w =
          (Inl (Error (d @ '' is not a valid digit info for number pipes'')), w)"
      have e: "formatNumber format toNumber pipe loc v style digits c a w =
          (Inl (Error (d @ '' is not a valid digit info for number pipes'')), w)"
        by (rule h [rule_format])
      from trans [OF r [symmetric] e] show ?thesis
        by simp
    next
      fix v' opts
      assume n: "isNumber v'"
        and h: "\<forall>(format :: 'w NumberFormatter) w.
          formatNumber format toNumber pipe loc v style digits c a w =
          returnFormat format v' loc style opts w"
      have e: "formatNumber format toNumber pipe loc v style digits c a w =
          returnFormat format v' loc style opts w"
        by (rule h [rule_format])
      have "returnFormat format v' loc style opts w =
          (Inl (InvalidPipeArgumentError p x), w')"
        by (rule trans [OF e [symmetric] r])
      then have "format v' loc style opts w = (Inl (InvalidPipeArgumentError p x), w')"
        by (rule returnFormat_error)
      with n show ?thesis
        by blast
    qed
  qed
  show ?thesis
    by (intro conjI) (rule 1, rule 2, rule 3, rule 4)
qed

text \<open>An instance: the currency style, with the formatter that records its calls.\<close>

theorem nan_is_delegated_witness:
  "isNumber (JsNumber NaN)
   \<and> formatNumber recordingFormat sampleToNumber CurrencyPipe ''en-US'' (JsNumber NaN) Currency
       Null (Defined ''USD'') (Defined False) [] =
     (Inr (Defined ''formatted''),
      [(JsNumber NaN, ''en-US'', Currency,
        \<lparr>minimumIntegerDigits = Undefined, minimumFractionDigits = Undefined,
         maximumFractionDigits = Undefined, currency = Defined ''USD'',
         currencyAsSymbol = Defined False\<rparr>)])
   \<and> NUMBER_FORMAT_REGEXP_match ''.2'' \<noteq> None
   \<and> (\<exists>x y z.
         formatNumber recordingFormat sampleToNumber CurrencyPipe ''en-US'' (JsNumber NaN) Currency
           (Defined ''.2'') (Defined ''USD'') (Defined False) [] =
         returnFormat recordingFormat (JsNumber NaN) ''en-US'' Currency
           \<lparr>minimumIntegerDigits = x, minimumFractionDigits = y, maximumFractionDigits = z,
            currency = Defined ''USD'', currencyAsSymbol = Defined False\<rparr> [])
   \<and> formatNumber recordingFormat sampleToNumber CurrencyPipe ''en-US'' (JsString ''abc'') Currency
       Null (Defined ''USD'') (Defined False) [] =
     (Inl (InvalidPipeArgumentError CurrencyPipe (JsString ''abc'')), [])
   \<and> \<not> isNumber (JsString ''abc'')"
proof -
  note t = nan_is_delegated [where format = recordingFormat and toNumber = sampleToNumber
      and pipe = CurrencyPipe and loc = "''en-US''" and style = Currency and digits = Null
      and c = "Defined ''USD''" and a = "Defined False" and w = "[]" and d = "''.2''"
      and v = "JsString ''abc''" and p = CurrencyPipe and x = "JsString ''abc''" and w' = "[]"]
  have 1: "isNumber (JsNumber NaN)"
    by (rule t [THEN conjunct1])
  have 2: "formatNumber recordingFormat sampleToNumber CurrencyPipe ''en-US'' (JsNumber NaN) Currency
       Null (Defined ''USD'') (Defined False) [] =
     (Inr (Defined ''formatted''),
      [(JsNumber NaN, ''en-US'', Currency,
        \<lparr>minimumIntegerDigits = Undefined, minimumFractionDigits = Undefined,
         maximumFractionDigits = Undefined, currency = Defined ''USD'',
         currencyAsSymbol = Defined False\<rparr>)])"
    using t [THEN conjunct2, THEN conjunct1]
    by (simp add: returnFormat_def recordingFormat_def defaultParam_simps)
  have m: "NUMBER_FORMAT_REGEXP_match ''.2'' \<noteq> None"
    by (simp add: match_examples(3))
  have 3: "\<exists>x y z.
         formatNumber recordingFormat sampleToNumber CurrencyPipe ''en-US'' (JsNumber NaN) Currency
           (Defined ''.2'') (Defined ''USD'') (Defined False) [] =
         returnFormat recordingFormat (JsNumber NaN) ''en-US'' Currency
           \<lparr>minimumIntegerDigits = x, minimumFractionDigits = y, maximumFractionDigits = z,
            currency = Defined ''USD'', currencyAsSymbol = Defined False\<rparr> []"
    using t [THEN conjunct2, THEN conjunct2, THEN conjunct1, THEN mp, OF m]
  proof (elim exE)
    fix x y z
    assume o: "\<forall>(format :: call list NumberFormatter) w.
          formatNumber format sampleToNumber CurrencyPipe ''en-US'' (JsNumber NaN) Currency
            (Defined ''.2'') (Defined ''USD'') (Defined False) w =
          returnFormat format (JsNumber NaN) ''en-US'' Currency
            \<lparr>minimumIntegerDigits = x, minimumFractionDigits = y, maximumFractionDigits = z,
             currency = defaultParam Null (Defined ''USD''),
             currencyAsSymbol = defaultParam (Defined False) (Defined False)\<rparr> w"
    have "formatNumber recordingFormat sampleToNumber CurrencyPipe ''en-US'' (JsNumber NaN) Currency
           (Defined ''.2'') (Defined ''USD'') (Defined False) [] =
         returnFormat recordingFormat (JsNumber NaN) ''en-US'' Currency
           \<lparr>minimumIntegerDigits = x, minimumFractionDigits = y, maximumFractionDigits = z,
            currency = Defined ''USD'', currencyAsSymbol = Defined False\<rparr> []"
      using o [rule_format, of recordingFormat "[]"] by (simp add: defaultParam_simps)
    then show ?thesis
      by (intro exI)
  qed
  have bad: "formatNumber recordingFormat sampleToNumber CurrencyPipe ''en-US'' (JsString ''abc'')
       Currency Null (Defined ''USD'') (Defined False) [] =
     (Inl (InvalidPipeArgumentError CurrencyPipe (JsString ''abc'')), [])"
    by (rule formatNumber_not_numeric)
      (simp_all add: isBlank_def isNumber_def isNumeric_def dropSign_def isDigit_def)
  have never: "recordingFormat v' ''en-US'' Currency opts [] \<noteq>
      (Inl (InvalidPipeArgumentError CurrencyPipe (JsString ''abc'')), [])" for v' opts
    by (simp add: recordingFormat_def)
  from t [THEN conjunct2, THEN conjunct2, THEN conjunct2, THEN mp, OF bad] never
  have 4: "\<not> isNumber (JsString ''abc'')"
    by blast
  show ?thesis
    by (intro conjI) (rule 1, rule 2, rule m, rule 3, rule bad, rule 4)
qed

end
